theory Spec2Isabelle
  imports Main "HOL-Library.AList"
begin

section \<open>JSON values and the JavaScript operations the service applies to them\<close>

text \<open>
  The service (the GitHub-backed \<^verbatim>\<open>server.js\<close>) keeps three JSON documents in a remote
  repository and answers HTTP requests about them. Documents, request bodies and response
  bodies are JSON values. The JavaScript value \<^verbatim>\<open>undefined\<close> is \<open>None\<close> of
  \<open>json option\<close>; it never occurs inside a parsed document.

  A number is written as an integer: \<open>JNum n\<close> is the number that \<^verbatim>\<open>JSON.parse\<close>
  reads from the decimal digits of \<open>n\<close>, the double nearest to it; up to \<open>2\<^sup>5\<^sup>3\<close> in
  magnitude that is \<open>n\<close> itself. The numbers the service makes are the
  \<^verbatim>\<open>Date.now()\<close> time stamp and the count of removed entries; numbers with a fraction
  are not modelled.
\<close>

datatype json =
    JNull
  | JBool bool
  | JNum int
  | JStr string
  | JArr "json list"
  | JObj "(string \<times> json) list"

text \<open>A persisted document is a JSON object: its list of properties.\<close>

type_synonym obj = "(string \<times> json) list"

datatype error =
    HttpStatus nat   \<comment> \<open>an axios error with \<^verbatim>\<open>e.response.status\<close>\<close>
  | NoResponse       \<comment> \<open>an axios error without a response (timeout, network)\<close>
  | SyntaxError      \<comment> \<open>\<^verbatim>\<open>JSON.parse\<close> of text that is not JSON\<close>
  | TypeError        \<comment> \<open>property of null or undefined, call of a non-function, invalid URL\<close>

subsection \<open>Numbers and their text\<close>

fun digit_char :: "nat \<Rightarrow> char" where
  "digit_char n = char_of (48 + n)"

fun show_nat :: "nat \<Rightarrow> string" where
  "show_nat n = (if n < 10 then [digit_char n] else show_nat (n div 10) @ [digit_char (n mod 10)])"

text \<open>
  \<^verbatim>\<open>String(x)\<close> for a number \<open>x\<close>. The number read from an integer literal is the
  nearest integer with at most 53 significant bits, a tie going to the even one, and it is
  \<^verbatim>\<open>Infinity\<close> when that integer reaches \<open>2\<^sup>1\<^sup>0\<^sup>2\<^sup>4\<close>.
\<close>

function bit_length :: "int \<Rightarrow> nat" where
  "bit_length n = (if n \<le> 0 then 0 else Suc (bit_length (n div 2)))"
  by auto
termination by (relation "measure nat") auto

definition round_double :: "int \<Rightarrow> int" where
  "round_double a =
     (let b = bit_length a in
      if b \<le> 53 then a
      else
        let sh = b - 53; q = a div 2 ^ sh; r = a mod 2 ^ sh; h = 2 ^ (sh - 1)
        in (if h < r \<or> (r = h \<and> odd q) then q + 1 else q) * 2 ^ sh)"

text \<open>The decimal digits of a number that is not negative.\<close>

function decimal :: "int \<Rightarrow> string" where
  "decimal n =
     (if n < 10 then [digit_char (nat n)]
      else decimal (n div 10) @ [digit_char (nat (n mod 10))])"
  by auto
termination by (relation "measure nat") auto

text \<open>
  The digits \<^verbatim>\<open>String\<close> prints are the fewest that still read back as the same number
  (at most 17 are needed), and among those the nearest to it. \<open>nearest_at d e\<close> is the
  multiple of \<open>10\<^sup>e\<close> that reads back as \<open>d\<close> and is nearest to \<open>d\<close>, if there is one.
\<close>

definition nearest_at :: "int \<Rightarrow> nat \<Rightarrow> int option" where
  "nearest_at d e =
     (let lo = d div 10 ^ e * 10 ^ e; hi = lo + 10 ^ e;
          lo_reads = (round_double lo = d); hi_reads = (round_double hi = d)
      in if lo_reads \<and> hi_reads
         then Some (if d - lo < hi - d then lo
                    else if hi - d < d - lo then hi
                    else if even (lo div 10 ^ e) then lo else hi)
         else if lo_reads then Some lo
         else if hi_reads then Some hi
         else None)"

definition shortest_decimal :: "int \<Rightarrow> int" where
  "shortest_decimal d =
     (let n = length (decimal d) in
      case List.map_filter (\<lambda>k. nearest_at d (n - k)) [k \<leftarrow> [1..<18]. k \<le> n] of
        [] \<Rightarrow> d
      | c # cs \<Rightarrow> c)"

text \<open>Below \<open>10\<^sup>2\<^sup>1\<close> the digits are followed by zeros up to the units; from there on the
  exponent is written.\<close>

definition number_text :: "int \<Rightarrow> string" where
  "number_text i =
     (let d = round_double \<bar>i\<bar>;
          s = decimal (shortest_decimal d);
          digits = rev (dropWhile (\<lambda>c. c = CHR ''0'') (rev s))
      in (if i < 0 then ''-'' else []) @
         (if 1024 < bit_length d then ''Infinity''
          else if length s \<le> 21 then s
          else hd digits # (if tl digits = [] then [] else CHR ''.'' # tl digits)
               @ ''e+'' @ show_nat (length s - 1)))"

declare show_nat.simps [simp del]
declare bit_length.simps [simp del]
declare decimal.simps [simp del]

subsection \<open>Operators\<close>

text \<open>Truthiness, as \<^verbatim>\<open>!v\<close>, \<^verbatim>\<open>a || b\<close> and \<^verbatim>\<open>if (v)\<close> test it.\<close>

fun truthy :: "json \<Rightarrow> bool" where
  "truthy JNull = False"
| "truthy (JBool b) = b"
| "truthy (JNum n) = (n \<noteq> 0)"
| "truthy (JStr s) = (s \<noteq> [])"
| "truthy (JArr xs) = True"
| "truthy (JObj kvs) = True"

fun truthy_opt :: "json option \<Rightarrow> bool" where
  "truthy_opt None = False"
| "truthy_opt (Some v) = truthy v"

text \<open>\<^verbatim>\<open>a || b\<close> with a right operand that is not \<^verbatim>\<open>undefined\<close>: the left
  operand when it is truthy, otherwise the right one.\<close>

definition js_or :: "json option \<Rightarrow> json \<Rightarrow> json" where
  "js_or a b = (case a of None \<Rightarrow> b | Some v \<Rightarrow> if truthy v then v else b)"

text \<open>
  \<^verbatim>\<open>v.k\<close> for the property names the service reads (\<^verbatim>\<open>urls\<close>, \<^verbatim>\<open>pins\<close>,
  \<^verbatim>\<open>enabled\<close>, \<^verbatim>\<open>id\<close>, \<^verbatim>\<open>url\<close>, \<^verbatim>\<open>title\<close>, \<^verbatim>\<open>favicon\<close>, \<^verbatim>\<open>active\<close>): reading a
  property of \<^verbatim>\<open>null\<close> throws, an object yields the property or \<^verbatim>\<open>undefined\<close>, and an
  array or a primitive has none of these properties.
\<close>

fun prop_of :: "json \<Rightarrow> string \<Rightarrow> json option" where
  "prop_of (JObj kvs) k = map_of kvs k"
| "prop_of v k = None"

definition get_prop :: "json \<Rightarrow> string \<Rightarrow> error + json option" where
  "get_prop v k = (if v = JNull then Inl TypeError else Inr (prop_of v k))"

fun get_prop_opt :: "json option \<Rightarrow> string \<Rightarrow> error + json option" where
  "get_prop_opt None k = Inl TypeError"
| "get_prop_opt (Some v) k = get_prop v k"

text \<open>
  \<^verbatim>\<open>a === b\<close> on values read from parsed documents and requests: primitives are
  compared by value, \<^verbatim>\<open>undefined\<close> equals itself, and two objects or arrays are
  never the same reference. Two integer literals are the same number when they read as the
  same double, which is when \<^verbatim>\<open>String\<close> prints them alike.
\<close>

fun strict_eq :: "json option \<Rightarrow> json option \<Rightarrow> bool" where
  "strict_eq None None = True"
| "strict_eq (Some (JArr xs)) b = False"
| "strict_eq (Some (JObj kvs)) b = False"
| "strict_eq (Some (JNum m)) (Some (JNum n)) = (number_text m = number_text n)"
| "strict_eq a b = (a = b)"

text \<open>
  \<^verbatim>\<open>v.k = x\<close>. The module is an ES module and therefore strict: assigning a property
  of a primitive throws, as it does for \<^verbatim>\<open>null\<close>. The only values the service assigns
  properties of are documents and catalog entries that carry an \<^verbatim>\<open>id\<close> property, which are
  objects; the remaining cases are never reached.
\<close>

fun set_prop :: "json \<Rightarrow> string \<Rightarrow> json \<Rightarrow> error + json" where
  "set_prop (JObj kvs) k x = Inr (JObj (AList.update k x kvs))"
| "set_prop v k x = Inl TypeError"

text \<open>
  A method of \<^verbatim>\<open>Array.prototype\<close> (\<^verbatim>\<open>filter\<close>, \<^verbatim>\<open>find\<close>, \<^verbatim>\<open>findIndex\<close>,
  \<^verbatim>\<open>map\<close>, \<^verbatim>\<open>push\<close>) called on a value: only an array has it; on \<^verbatim>\<open>undefined\<close>
  and \<^verbatim>\<open>null\<close> the property read throws, on anything else the call of a non-function
  throws.
\<close>

fun as_array :: "json option \<Rightarrow> error + json list" where
  "as_array (Some (JArr xs)) = Inr xs"
| "as_array v = Inl TypeError"

text \<open>An object literal sent with \<^verbatim>\<open>res.json\<close>: properties whose value is
  \<^verbatim>\<open>undefined\<close> are left out by \<^verbatim>\<open>JSON.stringify\<close>.\<close>

fun literal :: "(string \<times> json option) list \<Rightarrow> obj" where
  "literal [] = []"
| "literal ((k, None) # ps) = literal ps"
| "literal ((k, Some v) # ps) = (k, v) # literal ps"

subsection \<open>Array callbacks that may throw\<close>

fun filter_js :: "(json \<Rightarrow> error + bool) \<Rightarrow> json list \<Rightarrow> error + json list" where
  "filter_js p [] = Inr []"
| "filter_js p (x # xs) =
     (case p x of Inl e \<Rightarrow> Inl e
      | Inr b \<Rightarrow> (case filter_js p xs of Inl e \<Rightarrow> Inl e
                  | Inr ys \<Rightarrow> Inr (if b then x # ys else ys)))"

fun find_js :: "(json \<Rightarrow> error + bool) \<Rightarrow> json list \<Rightarrow> error + json option" where
  "find_js p [] = Inr None"
| "find_js p (x # xs) =
     (case p x of Inl e \<Rightarrow> Inl e
      | Inr b \<Rightarrow> if b then Inr (Some x) else find_js p xs)"

text \<open>\<^verbatim>\<open>findIndex\<close>: \<open>None\<close> stands for the result \<^verbatim>\<open>-1\<close>.\<close>

fun findIndex_js :: "(json \<Rightarrow> error + bool) \<Rightarrow> json list \<Rightarrow> error + nat option" where
  "findIndex_js p [] = Inr None"
| "findIndex_js p (x # xs) =
     (case p x of Inl e \<Rightarrow> Inl e
      | Inr b \<Rightarrow> if b then Inr (Some 0)
                 else (case findIndex_js p xs of Inl e \<Rightarrow> Inl e
                       | Inr r \<Rightarrow> Inr (map_option Suc r)))"

fun map_js :: "(json \<Rightarrow> error + json) \<Rightarrow> json list \<Rightarrow> error + json list" where
  "map_js f [] = Inr []"
| "map_js f (x # xs) =
     (case f x of Inl e \<Rightarrow> Inl e
      | Inr y \<Rightarrow> (case map_js f xs of Inl e \<Rightarrow> Inl e | Inr ys \<Rightarrow> Inr (y # ys)))"

subsection \<open>\<^verbatim>\<open>String(v)\<close> and \<^verbatim>\<open>String.prototype.replace\<close>\<close>

fun join_commas :: "string list \<Rightarrow> string" where
  "join_commas [] = []"
| "join_commas [s] = s"
| "join_commas (s # t # ss) = s @ '','' @ join_commas (t # ss)"

text \<open>The results of a list of evaluations, or the first exception.\<close>

fun all_right :: "(error + 'a) list \<Rightarrow> error + 'a list" where
  "all_right [] = Inr []"
| "all_right (Inl e # rs) = Inl e"
| "all_right (Inr x # rs) = (case all_right rs of Inl e \<Rightarrow> Inl e | Inr xs \<Rightarrow> Inr (x # xs))"

text \<open>
  \<^verbatim>\<open>String(v)\<close>. An array joins the strings of its elements with commas, a \<^verbatim>\<open>null\<close>
  element counting as the empty string. A parsed object inherits \<^verbatim>\<open>toString\<close> from
  \<^verbatim>\<open>Object.prototype\<close> unless it has a property of that name; the property, a JSON
  value, cannot be called, and the conversion then throws.
\<close>

fun js_String :: "json \<Rightarrow> error + string" where
  "js_String JNull = Inr ''null''"
| "js_String (JBool b) = Inr (if b then ''true'' else ''false'')"
| "js_String (JNum n) = Inr (number_text n)"
| "js_String (JStr s) = Inr s"
| "js_String (JArr xs) =
     map_sum id join_commas (all_right (map (\<lambda>x. if x = JNull then Inr [] else js_String x) xs))"
| "js_String (JObj kvs) =
     (if ''toString'' \<in> fst ` set kvs then Inl TypeError else Inr ''[object Object]'')"

text \<open>\<^verbatim>\<open>s.replace(pat, rep)\<close> with a string pattern: the first occurrence of
  \<open>pat\<close> in \<open>s\<close>, wherever it is, is replaced; \<open>s\<close> is unchanged when there is none.\<close>

fun replace_first :: "string \<Rightarrow> string \<Rightarrow> string \<Rightarrow> string" where
  "replace_first pat rep [] = (if pat = [] then rep else [])"
| "replace_first pat rep (c # cs) =
     (if take (length pat) (c # cs) = pat then rep @ drop (length pat) (c # cs)
      else c # replace_first pat rep cs)"


section \<open>The world the service runs in\<close>

text \<open>
  What \<^verbatim>\<open>cheerio\<close> extracts from a fetched page: the trimmed text of the first
  title element (empty when there is none) and the \<^verbatim>\<open>href\<close> attribute of the first
  link element for each of the three \<^verbatim>\<open>rel\<close> values (\<open>None\<close> when no element
  matches or the first one has no \<^verbatim>\<open>href\<close>).
\<close>

record page =
  title_text :: string
  icon :: "string option"
  shortcut_icon :: "string option"
  apple_touch_icon :: "string option"

text \<open>
  The platform is everything the service calls and does not define: \<^verbatim>\<open>nanoid\<close>,
  \<^verbatim>\<open>Date.now\<close>, the web as \<^verbatim>\<open>axios.get\<close> followed by \<^verbatim>\<open>cheerio.load\<close> sees
  it, and the \<^verbatim>\<open>URL\<close> class (\<open>None\<close> when the constructor throws). Every theorem
  below holds for every platform.
\<close>

record platform =
  ids :: "nat \<Rightarrow> string"                       \<comment> \<open>the successive results of \<^verbatim>\<open>nanoid\<close>\<close>
  clock :: "nat \<Rightarrow> int"                        \<comment> \<open>the successive results of \<^verbatim>\<open>Date.now\<close>\<close>
  web :: "json \<Rightarrow> error + page"
  url_href :: "string \<Rightarrow> json \<Rightarrow> string option"   \<comment> \<open>\<^verbatim>\<open>new URL(href, base).href\<close>\<close>
  url_origin :: "json \<Rightarrow> string option"           \<comment> \<open>\<^verbatim>\<open>new URL(u).origin\<close>\<close>
  url_hostname :: "json \<Rightarrow> string option"         \<comment> \<open>\<^verbatim>\<open>new URL(u).hostname\<close>\<close>

text \<open>
  The content of a file of the remote repository, as \<^verbatim>\<open>ghGetOrInit\<close> decodes it:
  empty (read as \<^verbatim>\<open>{}\<close>), text that \<^verbatim>\<open>JSON.parse\<close> rejects, or a JSON object.
  The three documents of the service are JSON objects, and so is everything the service
  writes; the stores considered here hold no file with another JSON value (an array, a
  string, a number, \<^verbatim>\<open>null\<close>) in it.
\<close>

datatype blob = Empty | Unparseable | Doc obj

text \<open>
  The remote repository is shared with other writers and reached over a network. Each
  request to it consumes one event of a script: the request goes through, or fails with
  an error, or another writer commits to or deletes a file just before it goes through.
  An exhausted script means that requests go through undisturbed.
\<close>

datatype event = Proceed | Fail error | Race string blob | Unlink string

text \<open>What the service does to the outside, in order.\<close>

datatype call =
    Get string
  | Put string obj "nat option" string
  | Fetch json
  | Respond nat obj

record world =
  files :: "string \<Rightarrow> (blob \<times> nat) option"   \<comment> \<open>content and version token (sha) by path\<close>
  commits :: nat                                 \<comment> \<open>the next version token\<close>
  script :: "event list"
  env :: platform
  drawn :: nat                                   \<comment> \<open>calls of \<^verbatim>\<open>nanoid\<close> so far\<close>
  ticks :: nat                                   \<comment> \<open>calls of \<^verbatim>\<open>Date.now\<close> so far\<close>
  tokens :: "string set"                         \<comment> \<open>\<^verbatim>\<open>app.locals.tokens\<close>\<close>
  removed :: nat                                 \<comment> \<open>the variable \<^verbatim>\<open>removed\<close> of the remove handler\<close>
  trace :: "call list"

subsection \<open>Computations that change the world and may throw\<close>

type_synonym ('a, 's) exn = "'s \<Rightarrow> (error + 'a) \<times> 's"

type_synonym 'a io = "('a, world) exn"

definition ret :: "'a \<Rightarrow> ('a, 's) exn" where
  "ret x w = (Inr x, w)"

definition throw :: "error \<Rightarrow> ('a, 's) exn" where
  "throw e w = (Inl e, w)"

text \<open>A pure expression that may throw.\<close>

definition lift :: "error + 'a \<Rightarrow> ('a, 's) exn" where
  "lift r w = (r, w)"

text \<open>Sequencing (\<^verbatim>\<open>await\<close>, \<^verbatim>\<open>;\<close>): an exception skips the rest.\<close>

definition bnd :: "('a, 's) exn \<Rightarrow> ('a \<Rightarrow> ('b, 's) exn) \<Rightarrow> ('b, 's) exn" where
  "bnd m k w = (case m w of (Inl e, w') \<Rightarrow> (Inl e, w') | (Inr x, w') \<Rightarrow> k x w')"

text \<open>\<^verbatim>\<open>try { m } catch (e) { h e }\<close>.\<close>

definition catch :: "('a, 's) exn \<Rightarrow> (error \<Rightarrow> ('a, 's) exn) \<Rightarrow> ('a, 's) exn" where
  "catch m h w = (case m w of (Inl e, w') \<Rightarrow> h e w' | (Inr x, w') \<Rightarrow> (Inr x, w'))"

definition emit :: "call \<Rightarrow> world \<Rightarrow> world" where
  "emit c w = w\<lparr>trace := trace w @ [c]\<rparr>"

subsection \<open>The remote content API\<close>

definition interfere :: "event \<Rightarrow> world \<Rightarrow> world" where
  "interfere ev w =
     (case ev of
        Race p b \<Rightarrow> w\<lparr>files := (files w)(p \<mapsto> (b, commits w)), commits := Suc (commits w)\<rparr>
      | Unlink p \<Rightarrow> w\<lparr>files := (files w)(p := None)\<rparr>
      | _ \<Rightarrow> w)"

definition next_event :: "world \<Rightarrow> event \<times> world" where
  "next_event w =
     (case script w of
        [] \<Rightarrow> (Proceed, w)
      | ev # evs \<Rightarrow> (ev, interfere ev (w\<lparr>script := evs\<rparr>)))"

text \<open>\<^verbatim>\<open>gh.get('/contents/' + path)\<close>: the file and its version token, or status 404
  when the file does not exist.\<close>

definition gh_get :: "string \<Rightarrow> (blob \<times> nat) io" where
  "gh_get p w =
     (case next_event (emit (Get p) w) of
        (Fail e, w1) \<Rightarrow> (Inl e, w1)
      | (_, w1) \<Rightarrow>
          (case files w1 p of
             None \<Rightarrow> (Inl (HttpStatus 404), w1)
           | Some d \<Rightarrow> (Inr d, w1)))"

text \<open>
  \<^verbatim>\<open>gh.put('/contents/' + path, payload)\<close>. The conditional write is the one of the
  store contract: with a version token that is not the file's current one the write fails
  with a version conflict (status 409); otherwise the content is replaced and a new
  version token is returned.
\<close>

definition gh_put :: "string \<Rightarrow> obj \<Rightarrow> nat option \<Rightarrow> string \<Rightarrow> nat io" where
  "gh_put p v sha msg w =
     (case next_event (emit (Put p v sha msg) w) of
        (Fail e, w1) \<Rightarrow> (Inl e, w1)
      | (_, w1) \<Rightarrow>
          if sha = None \<or> map_option snd (files w1 p) = sha
          then (Inr (commits w1),
                w1\<lparr>files := (files w1)(p \<mapsto> (Doc v, commits w1)), commits := Suc (commits w1)\<rparr>)
          else (Inl (HttpStatus 409), w1))"

section \<open>GitHub storage helpers\<close>

definition URLS_PATH :: string where "URLS_PATH = ''data/urls.json''"
definition PINS_PATH :: string where "PINS_PATH = ''data/pins.json''"
definition STATE_PATH :: string where "STATE_PATH = ''data/state.json''"

text \<open>\<^verbatim>\<open>JSON.parse(content || "{}")\<close> of the decoded file content.\<close>

definition parse :: "blob \<Rightarrow> error + obj" where
  "parse b = (case b of Empty \<Rightarrow> Inr [] | Unparseable \<Rightarrow> Inl SyntaxError | Doc v \<Rightarrow> Inr v)"

text \<open>
  \<^verbatim>\<open>ghPut\<close>: the commit message defaults to the word update and the path; the
  payload carries a version token only when one is given (\<^verbatim>\<open>if (sha) payload.sha = sha\<close>;
  a version token is a non-empty string, here a number, and \<open>None\<close> is \<^verbatim>\<open>null\<close>).
  The result is the new version token \<^verbatim>\<open>data.content.sha\<close>.
\<close>

definition ghPut :: "string \<Rightarrow> obj \<Rightarrow> nat option \<Rightarrow> string \<Rightarrow> nat io" where
  "ghPut jsonPath jsonValue sha message =
     gh_put jsonPath jsonValue sha (if message = [] then ''update '' @ jsonPath else message)"

text \<open>\<^verbatim>\<open>ghGetOrInit\<close>: fetch content and version token; create the file when it is
  missing. Only an error whose response status is 404 is handled.\<close>

definition ghGetOrInit :: "string \<Rightarrow> obj \<Rightarrow> (obj \<times> nat) io" where
  "ghGetOrInit jsonPath initValue =
     catch
       (bnd (gh_get jsonPath) (\<lambda>(content, sha).
        bnd (lift (parse content)) (\<lambda>json.
        ret (json, sha))))
       (\<lambda>e. if e = HttpStatus 404
             then bnd (ghPut jsonPath initValue None (''init '' @ jsonPath)) (\<lambda>sha.
                  ret (initValue, sha))
             else throw e)"

text \<open>
  The object \<^verbatim>\<open>ghGetOrInit\<close> returns is either one that \<^verbatim>\<open>JSON.parse\<close> has just made
  or, after the file was created, the caller's \<^verbatim>\<open>initValue\<close> itself
  (\<^verbatim>\<open>return { json: initValue, sha: res.sha }\<close>). Which of the two matters to a caller that
  changes the object and uses \<^verbatim>\<open>initValue\<close> again; \<open>ghGetOrInit_origin\<close> is
  \<^verbatim>\<open>ghGetOrInit\<close> with that information kept.
\<close>

datatype origin = Parsed | Given

definition ghGetOrInit_origin :: "string \<Rightarrow> obj \<Rightarrow> (origin \<times> obj \<times> nat) io" where
  "ghGetOrInit_origin jsonPath initValue =
     catch
       (bnd (gh_get jsonPath) (\<lambda>(content, sha).
        bnd (lift (parse content)) (\<lambda>json.
        ret (Parsed, json, sha))))
       (\<lambda>e. if e = HttpStatus 404
             then bnd (ghPut jsonPath initValue None (''init '' @ jsonPath)) (\<lambda>sha.
                  ret (Given, initValue, sha))
             else throw e)"

text \<open>
  A mutator is a JavaScript closure: it may draw identifiers, read the clock and throw, and
  it may change the object it is given. Called with an object of content \<open>db\<close> it yields a
  pair: the content of that object after the call, and the content of the object it
  returns.
\<close>

type_synonym mutator = "obj \<Rightarrow> (obj \<times> obj) io"

text \<open>A mutator that changes the object it is given and returns that object
  (\<^verbatim>\<open>return db\<close>); \<open>f\<close> computes the new content.\<close>

definition in_place :: "(obj \<Rightarrow> obj io) \<Rightarrow> mutator" where
  "in_place f db = bnd (f db) (\<lambda>changed. ret (changed, changed))"

text \<open>
  \<^verbatim>\<open>ghUpdate\<close>: update with a single retry on conflict. The retry passes
  \<^verbatim>\<open>initValue\<close> to \<^verbatim>\<open>ghGetOrInit\<close> again: when the first call had returned that very
  object, it is by now as the first application of the mutator has left it.
\<close>

definition ghUpdate :: "string \<Rightarrow> mutator \<Rightarrow> obj \<Rightarrow> string \<Rightarrow> obj io" where
  "ghUpdate jsonPath mutator initValue commitMsg =
     bnd (ghGetOrInit_origin jsonPath initValue) (\<lambda>(org, json, sha).
     bnd (mutator json) (\<lambda>(json_now, updated).
     let initValue_now = (if org = Given then json_now else initValue) in
     catch
       (bnd (ghPut jsonPath updated (Some sha) commitMsg) (\<lambda>_.
        ret updated))
       (\<lambda>e. if e = HttpStatus 409
             then bnd (ghGetOrInit jsonPath initValue_now) (\<lambda>(fresh_json, fresh_sha).
                  bnd (mutator fresh_json) (\<lambda>(fresh_now, updated2).
                  bnd (ghPut jsonPath updated2 (Some fresh_sha) (commitMsg @ '' (retry)'')) (\<lambda>_.
                  ret updated2)))
             else throw e)))"

definition ghRead :: "string \<Rightarrow> obj \<Rightarrow> obj io" where
  "ghRead jsonPath initValue =
     bnd (ghGetOrInit jsonPath initValue) (\<lambda>(json, sha). ret json)"

section \<open>Page meta probe\<close>

text \<open>The result of \<^verbatim>\<open>getPageMeta\<close>, and its two local variables while it runs.\<close>

record meta =
  meta_title :: string
  meta_favicon :: string

definition assign_title :: "string \<Rightarrow> (unit, meta) exn" where
  "assign_title t m = (Inr (), m\<lparr>meta_title := t\<rparr>)"

definition assign_favicon :: "string \<Rightarrow> (unit, meta) exn" where
  "assign_favicon f m = (Inr (), m\<lparr>meta_favicon := f\<rparr>)"

text \<open>\<^verbatim>\<open>a || b\<close> on an attribute value (a string or \<^verbatim>\<open>undefined\<close>) and a string.\<close>

definition or_str :: "string option \<Rightarrow> string \<Rightarrow> string" where
  "or_str a b = (case a of None \<Rightarrow> b | Some s \<Rightarrow> if s \<noteq> [] then s else b)"

text \<open>A constructor call \<^verbatim>\<open>new URL(...)\<close> throws a \<^verbatim>\<open>TypeError\<close> on an invalid URL.\<close>

definition new_URL :: "string option \<Rightarrow> (string, 's) exn" where
  "new_URL r = (case r of None \<Rightarrow> throw TypeError | Some s \<Rightarrow> ret s)"

text \<open>The body of the outer \<^verbatim>\<open>try\<close> block of \<^verbatim>\<open>getPageMeta\<close>.\<close>

definition probe_page :: "platform \<Rightarrow> json \<Rightarrow> (unit, meta) exn" where
  "probe_page pf targetUrl =
     bnd (lift (web pf targetUrl)) (\<lambda>pg.
     bnd (assign_title (or_str (Some (title_text pg)) [])) (\<lambda>_.
     let iconHref =
           or_str (icon pg) (or_str (shortcut_icon pg) (or_str (apple_touch_icon pg) []))
     in if iconHref \<noteq> []
        then bnd (new_URL (url_href pf iconHref targetUrl)) (\<lambda>href.
             assign_favicon href)
        else bnd (new_URL (url_origin pf targetUrl)) (\<lambda>origin.
             assign_favicon (origin @ ''/favicon.ico''))))"

text \<open>The \<^verbatim>\<open>try\<close> block inside the outer \<^verbatim>\<open>catch\<close>.\<close>

definition probe_fallback :: "platform \<Rightarrow> json \<Rightarrow> (unit, meta) exn" where
  "probe_fallback pf targetUrl =
     bnd (new_URL (url_origin pf targetUrl)) (\<lambda>origin.
     assign_favicon (origin @ ''/favicon.ico''))"

definition getPageMeta :: "json \<Rightarrow> meta io" where
  "getPageMeta targetUrl w =
     (case catch (probe_page (env w) targetUrl)
                 (\<lambda>e. catch (probe_fallback (env w) targetUrl) (\<lambda>e'. ret ()))
                 \<lparr>meta_title = [], meta_favicon = []\<rparr>
      of (r, m) \<Rightarrow> (map_sum id (\<lambda>_. m) r, emit (Fetch targetUrl) w))"

text \<open>The object \<^verbatim>\<open>{ title, favicon }\<close> as JSON.\<close>

definition meta_json :: "meta \<Rightarrow> json" where
  "meta_json m = JObj [(''title'', JStr (meta_title m)), (''favicon'', JStr (meta_favicon m))]"

section \<open>Requests and responses\<close>

record request =
  authorization :: "string option"   \<comment> \<open>\<^verbatim>\<open>req.headers.authorization\<close>\<close>
  body :: "json option"               \<comment> \<open>\<^verbatim>\<open>req.body\<close>\<close>
  param_id :: string                  \<comment> \<open>\<^verbatim>\<open>req.params.id\<close>\<close>
  query_all :: "json option"          \<comment> \<open>\<^verbatim>\<open>req.query.all\<close>\<close>

text \<open>A response: the status and the JSON body. \<^verbatim>\<open>res.json\<close> alone has status 200.\<close>

type_synonym response = "nat \<times> obj"

definition respond :: "nat \<Rightarrow> obj \<Rightarrow> response io" where
  "respond status b w = (Inr (status, b), emit (Respond status b) w)"

definition failure :: "string \<Rightarrow> obj" where
  "failure msg = [(''ok'', JBool False), (''error'', JStr msg)]"

text \<open>A property of \<^verbatim>\<open>req.body || {}\<close>, as the destructuring in the handlers reads it.
  The value destructured is truthy or the empty object, hence never \<^verbatim>\<open>null\<close>.\<close>

definition body_field :: "request \<Rightarrow> string \<Rightarrow> json option" where
  "body_field req k =
     prop_of (js_or (body req) (JObj [])) k"

definition nanoid :: "nat \<Rightarrow> string io" where
  "nanoid n w = (Inr (ids (env w) (drawn w)), w\<lparr>drawn := Suc (drawn w)\<rparr>)"

definition Date_now :: "int io" where
  "Date_now w = (Inr (clock (env w) (ticks w)), w\<lparr>ticks := Suc (ticks w)\<rparr>)"

definition init_urls :: obj where "init_urls = [(''urls'', JArr [])]"
definition init_pins :: obj where "init_pins = [(''pins'', JArr [JStr ''1234''])]"
definition init_state :: obj where "init_state = [(''enabled'', JBool True)]"

section \<open>Simple in-memory admin tokens\<close>

definition randomToken :: "string io" where
  "randomToken = bnd (nanoid 16) (\<lambda>n. ret (''adm_'' @ n))"

text \<open>\<^verbatim>\<open>pins.pins?.map(String).includes(String(pin))\<close>: \<^verbatim>\<open>undefined\<close> when the
  document has no list of pins. The entries are converted before the pin is.\<close>

definition checkPin :: "json \<Rightarrow> json option io" where
  "checkPin pin =
     bnd (ghRead PINS_PATH init_pins) (\<lambda>pins.
     case map_of pins ''pins'' of
       None \<Rightarrow> ret None
     | Some JNull \<Rightarrow> ret None
     | Some (JArr xs) \<Rightarrow>
         bnd (lift (all_right (map js_String xs))) (\<lambda>entries.
         bnd (lift (js_String pin)) (\<lambda>p.
         ret (Some (JBool (p \<in> set entries)))))
     | Some _ \<Rightarrow> throw TypeError)"

section \<open>Public API\<close>

text \<open>The callback \<^verbatim>\<open>(u) => u.active !== false\<close>.\<close>

definition is_active :: "json \<Rightarrow> error + bool" where
  "is_active u =
     (case get_prop u ''active'' of Inl e \<Rightarrow> Inl e
      | Inr a \<Rightarrow> Inr (\<not> strict_eq a (Some (JBool False))))"

text \<open>The callback \<^verbatim>\<open>({ id, title, favicon, url }) => ({ id, title, favicon, url })\<close>.\<close>

definition project :: "json \<Rightarrow> error + json" where
  "project u =
     (if u = JNull then Inl TypeError
      else Inr (JObj (literal [(''id'', prop_of u ''id''), (''title'', prop_of u ''title''),
                               (''favicon'', prop_of u ''favicon''), (''url'', prop_of u ''url'')])))"

text \<open>\<^verbatim>\<open>GET /api/urls\<close>.\<close>

definition get_urls :: "request \<Rightarrow> response io" where
  "get_urls req =
     catch
       (bnd (ghRead URLS_PATH init_urls) (\<lambda>urls.
        bnd (ghRead STATE_PATH init_state) (\<lambda>state.
        bnd (lift (as_array (map_of urls ''urls''))) (\<lambda>all_urls.
        bnd (lift (if strict_eq (query_all req) (Some (JStr ''1''))
                   then Inr all_urls else filter_js is_active all_urls)) (\<lambda>onlyActive.
        bnd (lift (map_js project onlyActive)) (\<lambda>items.
        respond 200 [(''ok'', JBool True),
                     (''enabled'', JBool (truthy_opt (map_of state ''enabled''))),
                     (''urls'', JArr items)]))))))
       (\<lambda>e. respond 500 (failure ''read failed''))"

text \<open>The callback \<^verbatim>\<open>(u) => u.id === req.params.id && u.active !== false\<close>.\<close>

definition matches :: "string \<Rightarrow> json \<Rightarrow> error + bool" where
  "matches rid u =
     (case get_prop u ''id'' of Inl e \<Rightarrow> Inl e
      | Inr i \<Rightarrow> if strict_eq i (Some (JStr rid)) then is_active u else Inr False)"

text \<open>\<^verbatim>\<open>GET /api/resolve/:id\<close>.\<close>

definition resolve :: "request \<Rightarrow> response io" where
  "resolve req =
     catch
       (bnd (ghRead STATE_PATH init_state) (\<lambda>state.
        if \<not> truthy_opt (map_of state ''enabled'')
        then respond 403 (failure ''Access disabled'')
        else
          bnd (ghRead URLS_PATH init_urls) (\<lambda>urls.
          bnd (lift (as_array (map_of urls ''urls''))) (\<lambda>all_urls.
          bnd (lift (find_js (matches (param_id req)) all_urls)) (\<lambda>item.
          if \<not> truthy_opt item
          then respond 404 (failure ''Not found'')
          else
            bnd (lift (get_prop_opt item ''id'')) (\<lambda>item_id.
            bnd (lift (get_prop_opt item ''title'')) (\<lambda>item_title.
            bnd (lift (get_prop_opt item ''favicon'')) (\<lambda>item_favicon.
            bnd (lift (get_prop_opt item ''url'')) (\<lambda>item_url.
            respond 200 (literal [(''ok'', Some (JBool True)), (''id'', item_id),
                                  (''title'', item_title), (''favicon'', item_favicon),
                                  (''url'', item_url)]))))))))))
       (\<lambda>e. respond 500 (failure ''resolve failed''))"

text \<open>\<^verbatim>\<open>POST /api/probe\<close>.\<close>

definition post_probe :: "request \<Rightarrow> response io" where
  "post_probe req =
     (case body_field req ''url'' of
        None \<Rightarrow> respond 400 (failure ''url required'')
      | Some url \<Rightarrow>
          if \<not> truthy url then respond 400 (failure ''url required'')
          else catch
                 (bnd (getPageMeta url) (\<lambda>m.
                  respond 200 [(''ok'', JBool True), (''meta'', meta_json m)]))
                 (\<lambda>e. respond 500 (failure ''probe failed'')))"

section \<open>Admin API\<close>

definition add_token :: "string \<Rightarrow> unit io" where
  "add_token t w = (Inr (), w\<lparr>tokens := insert t (tokens w)\<rparr>)"

text \<open>\<^verbatim>\<open>POST /api/admin/login\<close>. The handler has no \<^verbatim>\<open>try\<close>: an exception of
  \<^verbatim>\<open>checkPin\<close> leaves the request without a response.\<close>

definition login :: "request \<Rightarrow> response io" where
  "login req =
     (let pin = body_field req ''pin'' in
      case pin of
        None \<Rightarrow> respond 401 (failure ''bad pin'')
      | Some p \<Rightarrow>
          if \<not> truthy p then respond 401 (failure ''bad pin'')
          else
            bnd (checkPin p) (\<lambda>good.
            if \<not> truthy_opt good then respond 401 (failure ''bad pin'')
            else
              bnd randomToken (\<lambda>token.
              bnd (add_token token) (\<lambda>_.
              respond 200 [(''ok'', JBool True), (''token'', JStr token)]))))"

text \<open>The middleware \<^verbatim>\<open>auth\<close>; \<open>next\<close> is the handler it guards.\<close>

definition auth :: "request \<Rightarrow> response io \<Rightarrow> response io" where
  "auth req next w =
     (let hdr = or_str (authorization req) [];
          token = replace_first ''Bearer '' [] hdr
      in if token = [] \<or> token \<notin> tokens w
         then respond 401 (failure ''unauthorized'') w
         else next w)"

text \<open>The mutator of the first update of \<^verbatim>\<open>POST /api/admin/add\<close>: the content it
  gives the object \<^verbatim>\<open>db\<close>, which it returns. The identifier is drawn and the clock is read
  before \<^verbatim>\<open>push\<close> is called.\<close>

definition add_mutator :: "json \<Rightarrow> json option \<Rightarrow> json option \<Rightarrow> obj \<Rightarrow> obj io" where
  "add_mutator url title favicon db =
     (let db_urls = js_or (map_of db ''urls'') (JArr []) in
      bnd (nanoid 10) (\<lambda>new_id.
      bnd Date_now (\<lambda>now.
      bnd (lift (as_array (Some db_urls))) (\<lambda>xs.
      ret (AList.update ''urls''
             (JArr (xs @ [JObj (literal
                [(''id'', Some (JStr new_id)),
                 (''url'', Some url),
                 (''title'', Some (js_or title (JStr []))),
                 (''favicon'', Some (js_or favicon (JStr []))),
                 (''active'', Some (JBool True)),
                 (''createdAt'', Some (JNum now))])])) db)))))"

text \<open>\<^verbatim>\<open>a || b || new URL(url).hostname\<close>: the constructor is only called when
  both \<open>a\<close> and \<open>b\<close> are falsy.\<close>

definition or_hostname :: "platform \<Rightarrow> json \<Rightarrow> json option \<Rightarrow> string \<Rightarrow> error + json" where
  "or_hostname pf url a b =
     (let v = js_or a (JStr b) in
      if truthy v then Inr v
      else (case url_hostname pf url of None \<Rightarrow> Inl TypeError | Some h \<Rightarrow> Inr (JStr h)))"

text \<open>The callback \<^verbatim>\<open>(u) => u.id === last.id\<close>.\<close>

definition same_id :: "json option \<Rightarrow> json \<Rightarrow> error + bool" where
  "same_id last_rec u =
     (case get_prop u ''id'' of Inl e \<Rightarrow> Inl e
      | Inr i \<Rightarrow> (case get_prop_opt last_rec ''id'' of Inl e \<Rightarrow> Inl e
                  | Inr l \<Rightarrow> Inr (strict_eq i l)))"

text \<open>The mutator of the second update of \<^verbatim>\<open>POST /api/admin/add\<close>.\<close>

definition the_platform :: "platform io" where
  "the_platform w = (Inr (env w), w)"

definition fill_mutator :: "json \<Rightarrow> json option \<Rightarrow> meta \<Rightarrow> obj \<Rightarrow> obj io" where
  "fill_mutator url last_rec m db =
     bnd (lift (as_array (map_of db ''urls''))) (\<lambda>xs.
     bnd (lift (findIndex_js (same_id last_rec) xs)) (\<lambda>idx.
     case idx of
       None \<Rightarrow> ret db
     | Some i \<Rightarrow>
         bnd the_platform (\<lambda>pf.
         bnd (lift (or_hostname pf url (prop_of (xs ! i) ''title'') (meta_title m))) (\<lambda>t.
         bnd (lift (set_prop (xs ! i) ''title'' t)) (\<lambda>u1.
         bnd (lift (set_prop u1 ''favicon''
                (js_or (prop_of u1 ''favicon'')
                   (js_or (Some (JStr (meta_favicon m))) (JStr []))))) (\<lambda>u2.
         ret (AList.update ''urls'' (JArr (xs[i := u2])) db)))))))"

text \<open>\<^verbatim>\<open>result.urls[result.urls.length - 1]\<close>: \<^verbatim>\<open>undefined\<close> for an empty array.\<close>

definition last_of :: "json list \<Rightarrow> json option" where
  "last_of xs = (if xs = [] then None else Some (last xs))"

text \<open>\<^verbatim>\<open>POST /api/admin/add\<close>. The probe and the second update are awaited inside their
  own \<^verbatim>\<open>try\<close> with an empty \<^verbatim>\<open>catch\<close>; the response is sent after them.\<close>

definition post_add :: "request \<Rightarrow> response io" where
  "post_add req =
     auth req
       (let title = body_field req ''title''; favicon = body_field req ''favicon'' in
        case body_field req ''url'' of
          None \<Rightarrow> respond 400 (failure ''url required'')
        | Some url \<Rightarrow>
            if \<not> truthy url then respond 400 (failure ''url required'')
            else
              catch
                (bnd (ghUpdate URLS_PATH (in_place (add_mutator url title favicon)) init_urls
                        ''admin add url'') (\<lambda>result.
                 bnd (lift (as_array (map_of result ''urls''))) (\<lambda>result_urls.
                 let last_rec = last_of result_urls in
                 bnd (if \<not> truthy_opt title \<or> \<not> truthy_opt favicon
                      then catch
                             (bnd (getPageMeta url) (\<lambda>m.
                              bnd (ghUpdate URLS_PATH (in_place (fill_mutator url last_rec m))
                                     init_urls ''fill title/favicon'') (\<lambda>_.
                              ret ())))
                             (\<lambda>e. ret ())
                      else ret ()) (\<lambda>_.
                 bnd (lift (get_prop_opt last_rec ''id'')) (\<lambda>last_id.
                 respond 200 (literal [(''ok'', Some (JBool True)), (''id'', last_id)]))))))
                (\<lambda>e. respond 500 (failure ''add failed'')))"

definition assign_removed :: "nat \<Rightarrow> unit io" where
  "assign_removed n w = (Inr (), w\<lparr>removed := n\<rparr>)"

definition read_removed :: "nat io" where
  "read_removed w = (Inr (removed w), w)"

text \<open>The callback \<^verbatim>\<open>(u) => u.id !== req.params.id\<close>.\<close>

definition other_id :: "string \<Rightarrow> json \<Rightarrow> error + bool" where
  "other_id rid u =
     (case get_prop u ''id'' of Inl e \<Rightarrow> Inl e
      | Inr i \<Rightarrow> Inr (\<not> strict_eq i (Some (JStr rid))))"

text \<open>The mutator of \<^verbatim>\<open>DELETE /api/admin/remove/:id\<close>; it assigns the handler's
  variable \<^verbatim>\<open>removed\<close>. Only an array has both \<^verbatim>\<open>length\<close> and \<^verbatim>\<open>filter\<close>.\<close>

definition remove_mutator :: "string \<Rightarrow> obj \<Rightarrow> obj io" where
  "remove_mutator rid db =
     (let db_urls = js_or (map_of db ''urls'') (JArr []) in
      bnd (lift (as_array (Some db_urls))) (\<lambda>xs.
      let len_before = length xs in
      bnd (lift (filter_js (other_id rid) xs)) (\<lambda>ys.
      bnd (assign_removed (len_before - length ys)) (\<lambda>_.
      ret (AList.update ''urls'' (JArr ys) db)))))"

text \<open>\<^verbatim>\<open>DELETE /api/admin/remove/:id\<close>.\<close>

definition delete_remove :: "request \<Rightarrow> response io" where
  "delete_remove req =
     auth req
       (catch
          (bnd (assign_removed 0) (\<lambda>_.
           bnd (ghUpdate URLS_PATH (in_place (remove_mutator (param_id req))) init_urls
                  ''admin remove url'') (\<lambda>_.
           bnd read_removed (\<lambda>n.
           respond 200 [(''ok'', JBool True), (''removed'', JNum (int n))]))))
          (\<lambda>e. respond 500 (failure ''remove failed'')))"

text \<open>\<^verbatim>\<open>POST /api/admin/toggle\<close>; the mutator leaves the document it is given alone
  and returns a new object.\<close>

definition post_toggle :: "request \<Rightarrow> response io" where
  "post_toggle req =
     auth req
       (case body_field req ''enabled'' of
          Some (JBool enabled) \<Rightarrow>
            catch
              (bnd (ghUpdate STATE_PATH (\<lambda>db. ret (db, [(''enabled'', JBool enabled)]))
                      init_state ''toggle service state'') (\<lambda>updated.
               respond 200 (literal [(''ok'', Some (JBool True)),
                                     (''enabled'', map_of updated ''enabled'')])))
              (\<lambda>e. respond 500 (failure ''toggle failed''))
        | _ \<Rightarrow> respond 400 (failure ''enabled boolean required''))"

text \<open>\<^verbatim>\<open>GET /\<close>.\<close>

definition get_root :: "request \<Rightarrow> response io" where
  "get_root req =
     respond 200 [(''ok'', JBool True), (''service'', JStr ''weekly-link-giver (github-backed)'')]"

section \<open>Vocabulary of the properties\<close>

text \<open>The document at a path reads as \<open>d\<close>: the file parses to \<open>d\<close>, or it is missing
  and \<open>d\<close> is the initial value it will be created with.\<close>

definition stored :: "world \<Rightarrow> string \<Rightarrow> obj \<Rightarrow> obj \<Rightarrow> bool" where
  "stored w p init d =
     (case files w p of None \<Rightarrow> d = init | Some (b, s) \<Rightarrow> parse b = Inr d)"

text \<open>The request carries a header that \<^verbatim>\<open>auth\<close> accepts.\<close>

definition authorized :: "request \<Rightarrow> world \<Rightarrow> bool" where
  "authorized req w =
     (replace_first ''Bearer '' [] (or_str (authorization req) []) \<noteq> [] \<and>
      replace_first ''Bearer '' [] (or_str (authorization req) []) \<in> tokens w)"


section \<open>Example worlds\<close>

definition demo_platform :: platform where
  "demo_platform =
     \<lparr>ids = (\<lambda>n. ''id'' @ show_nat n),
      clock = (\<lambda>n. 1700000000000 + int n),
      web = (\<lambda>u. if u = JStr ''https://example.com/''
                 then Inr \<lparr>title_text = ''Example Domain'', icon = None,
                           shortcut_icon = Some ''/fav.png'',
                           apple_touch_icon = Some ''/apple.png''\<rparr>
                 else if u = JStr ''https://plain.example/''
                 then Inr \<lparr>title_text = ''Plain'', icon = None,
                           shortcut_icon = Some [], apple_touch_icon = None\<rparr>
                 else Inl NoResponse),
      url_href = (\<lambda>h b. if b = JStr ''https://example.com/'' \<and> take 1 h = ''/''
                       then Some (''https://example.com'' @ h) else None),
      url_origin = (\<lambda>u. if u = JStr ''https://example.com/'' then Some ''https://example.com''
                       else if u = JStr ''https://plain.example/'' then Some ''https://plain.example''
                       else if u = JStr ''https://down.example/'' then Some ''https://down.example''
                       else None),
      url_hostname = (\<lambda>u. if u = JStr ''https://example.com/'' then Some ''example.com''
                         else if u = JStr ''https://plain.example/'' then Some ''plain.example''
                         else if u = JStr ''https://down.example/'' then Some ''down.example''
                         else None)\<rparr>"

definition demo_world :: "(string \<Rightarrow> (blob \<times> nat) option) \<Rightarrow> event list \<Rightarrow> world" where
  "demo_world fs evs =
     \<lparr>files = fs, commits = 100, script = evs, env = demo_platform,
      drawn = 0, ticks = 0, tokens = {''adm_secret''}, removed = 0, trace = []\<rparr>"

definition demo_request :: request where
  "demo_request =
     \<lparr>authorization = Some ''Bearer adm_secret'', body = None, param_id = [], query_all = None\<rparr>"

text \<open>The pattern occurs somewhere in the string.\<close>

fun occurs :: "string \<Rightarrow> string \<Rightarrow> bool" where
  "occurs pat [] = (pat = [])"
| "occurs pat (c # cs) = (take (length pat) (c # cs) = pat \<or> occurs pat cs)"

text \<open>The first of a list of attribute values that is present and not empty.\<close>

definition first_nonempty :: "string option list \<Rightarrow> string option" where
  "first_nonempty as = (case filter (\<lambda>a. a \<noteq> None \<and> a \<noteq> Some []) as of [] \<Rightarrow> None | a # _ \<Rightarrow> a)"

text \<open>A request whose header has the word Bearer inside a stored token.\<close>

definition inner_bearer_request :: request where
  "inner_bearer_request = demo_request\<lparr>authorization := Some ''adm_Bearer secret''\<rparr>"

definition no_files :: "string \<Rightarrow> (blob \<times> nat) option" where
  "no_files = Map.empty"

text \<open>Two worlds agree on the platform, the random and clock positions, the token set
  and the handler variable: everything but the remote repository and the trace.\<close>

definition same_locals :: "world \<Rightarrow> world \<Rightarrow> bool" where
  "same_locals w w' \<longleftrightarrow>
     env w' = env w \<and> drawn w' = drawn w \<and> ticks w' = ticks w \<and> tokens w' = tokens w
     \<and> removed w' = removed w"

text \<open>A repository with the state document and a catalog of two entries, the first
  inactive.\<close>

definition gate_files :: "bool \<Rightarrow> string \<Rightarrow> (blob \<times> nat) option" where
  "gate_files on =
     no_files
       (STATE_PATH \<mapsto> (Doc [(''enabled'', JBool on)], 1),
        URLS_PATH \<mapsto> (Doc [(''urls'', JArr
           [JObj [(''id'', JStr ''a1''), (''url'', JStr ''https://a.example/''), (''title'', JStr ''A''),
                  (''favicon'', JStr ''https://a.example/favicon.ico''), (''active'', JBool False),
                  (''createdAt'', JNum 1)],
            JObj [(''id'', JStr ''b2''), (''url'', JStr ''https://b.example/''), (''title'', JStr ''B''),
                  (''favicon'', JStr ''https://b.example/favicon.ico''), (''active'', JBool True),
                  (''createdAt'', JNum 2)]])], 2))"

text \<open>A repository whose pin list contains the empty string, and a login request.\<close>

definition empty_pin_files :: "string \<Rightarrow> (blob \<times> nat) option" where
  "empty_pin_files = no_files(PINS_PATH \<mapsto> (Doc [(''pins'', JArr [JStr [], JStr ''2468''])], 1))"

definition pin_request :: "string \<Rightarrow> request" where
  "pin_request p = demo_request\<lparr>authorization := None, body := Some (JObj [(''pin'', JStr p)])\<rparr>"

text \<open>The second world is undisturbed and differs from the first, in the repository, at most at the path.\<close>

definition only_at :: "string \<Rightarrow> world \<Rightarrow> world \<Rightarrow> bool" where
  "only_at p w w' \<longleftrightarrow> script w' = [] \<and> (\<forall>q. q \<noteq> p \<longrightarrow> files w' q = files w q)"

text \<open>The world with the file of the state document replaced.\<close>

definition set_state :: "(blob \<times> nat) option \<Rightarrow> world \<Rightarrow> world" where
  "set_state x w = w\<lparr>files := (files w)(STATE_PATH := x)\<rparr>"

text \<open>A computation that, run undisturbed, neither reads nor writes the state document:
  replacing the file beforehand changes nothing but the file afterwards.\<close>

definition ignores_state :: "'a io \<Rightarrow> bool" where
  "ignores_state m \<longleftrightarrow>
     (\<forall>w x. script w = [] \<longrightarrow>
        script (snd (m w)) = [] \<and> m (set_state x w) = (fst (m w), set_state x (snd (m w))))"

text \<open>A computation that, run undisturbed, leaves the state document reading as before.\<close>

definition state_safe :: "'a io \<Rightarrow> bool" where
  "state_safe m \<longleftrightarrow>
     (\<forall>w. script w = [] \<longrightarrow>
        script (snd (m w)) = [] \<and>
        (\<forall>d. stored (snd (m w)) STATE_PATH init_state d \<longleftrightarrow> stored w STATE_PATH init_state d))"


text \<open>What the list shows of a catalog entry.\<close>

definition entry_view :: "json \<Rightarrow> json" where
  "entry_view u =
     JObj (literal [(''id'', prop_of u ''id''), (''title'', prop_of u ''title''),
                    (''favicon'', prop_of u ''favicon''), (''url'', prop_of u ''url'')])"


text \<open>A toggle request of the administrator.\<close>

definition toggle_request :: "bool \<Rightarrow> request" where
  "toggle_request b = demo_request\<lparr>body := Some (JObj [(''enabled'', JBool b)])\<rparr>"




text \<open>An add request of the administrator.\<close>

definition add_request :: "json \<Rightarrow> json option \<Rightarrow> json option \<Rightarrow> request" where
  "add_request url title favicon =
     demo_request\<lparr>body := Some (JObj (literal [(''url'', Some url), (''title'', title),
                                                (''favicon'', favicon)]))\<rparr>"











text \<open>A repository whose pin list holds the number \<^verbatim>\<open>1e21\<close>.\<close>

definition number_pin_files :: "string \<Rightarrow> (blob \<times> nat) option" where
  "number_pin_files =
     no_files(PINS_PATH \<mapsto> (Doc [(''pins'', JArr [JNum 1000000000000000000000])], 1))"



text \<open>
  An add request with title and favicon, and a store without catalog in which another
  writer commits to the catalog right after the handler has created it and deletes it
  before the handler reads it again.
\<close>

definition full_add :: request where
  "full_add =
     add_request (JStr ''https://example.com/'') (Some (JStr ''Example''))
       (Some (JStr ''https://example.com/fav.png''))"

definition recreating_world :: world where
  "recreating_world =
     demo_world no_files [Proceed, Proceed, Race URLS_PATH (Doc init_urls), Unlink URLS_PATH]"

text \<open>The entry the add handler makes of \<open>full_add\<close> with a given identifier and time,
  and the update by which it appends the entry.\<close>

definition full_entry :: "string \<Rightarrow> int \<Rightarrow> json" where
  "full_entry nid now =
     JObj [(''id'', JStr nid), (''url'', JStr ''https://example.com/''),
           (''title'', JStr ''Example''), (''favicon'', JStr ''https://example.com/fav.png''),
           (''active'', JBool True), (''createdAt'', JNum now)]"

definition full_add_update :: "obj io" where
  "full_add_update =
     ghUpdate URLS_PATH
       (in_place (add_mutator (JStr ''https://example.com/'') (Some (JStr ''Example''))
          (Some (JStr ''https://example.com/fav.png''))))
       init_urls ''admin add url''"

section \<open>Properties of the storage helpers\<close>

lemmas io_defs = bnd_def catch_def ret_def throw_def lift_def
lemmas api_defs = gh_get_def gh_put_def next_event_def interfere_def emit_def
lemmas gh_defs = ghPut_def ghGetOrInit_def ghGetOrInit_origin_def ghUpdate_def ghRead_def parse_def
  in_place_def
lemmas demo_defs = demo_world_def demo_platform_def demo_request_def

lemmas path_defs = URLS_PATH_def PINS_PATH_def STATE_PATH_def
lemmas init_defs = init_urls_def init_pins_def init_state_def

text \<open>\<^verbatim>\<open>ghGetOrInit\<close> is \<open>ghGetOrInit_origin\<close> with the origin forgotten, and the
  object is the initial value whenever its origin is the caller.\<close>

lemma ghGetOrInit_forgets:
  "ghGetOrInit p init w =
     (case ghGetOrInit_origin p init w of
        (Inl e, w') \<Rightarrow> (Inl e, w')
      | (Inr (org, json, sha), w') \<Rightarrow> (Inr (json, sha), w'))"
  by (simp add: ghGetOrInit_def ghGetOrInit_origin_def io_defs split: prod.splits sum.splits)


lemma ghGetOrInit_origin_Inr:
  "ghGetOrInit p init w = (Inr (json, sha), w') \<Longrightarrow>
     \<exists>org. ghGetOrInit_origin p init w = (Inr (org, json, sha), w')"
  by (auto simp: ghGetOrInit_forgets split: prod.splits sum.splits)

lemma ghGetOrInit_origin_Given:
  "ghGetOrInit_origin p init w = (Inr (Given, json, sha), w') \<Longrightarrow> json = init"
  by (auto simp: ghGetOrInit_origin_def io_defs split: prod.splits sum.splits if_splits)

lemma ghGetOrInit_origin_Parsed:
  "ghGetOrInit_origin p init w = (Inr (Parsed, json, sha), w') \<Longrightarrow>
     ghGetOrInit_origin p init' w = (Inr (Parsed, json, sha), w')"
  by (auto simp: ghGetOrInit_origin_def io_defs split: prod.splits sum.splits if_splits)

text \<open>
  The course of an update once the read and the mutator have succeeded. When the first
  write succeeds the update is over; when it fails with anything but a version conflict
  the error propagates and nothing more happens; when it fails with a version conflict
  (status 409) the update continues with one more read, one more application of the
  mutator and one more write with the fresh token, a plain sequence in which every error,
  a second conflict included, propagates. The initial value of the second read is the
  one given only if the first read had parsed the file; if the first read had created the
  file, it is what the mutator has made of the initial value.
\<close>

lemma ghUpdate_course:
  assumes "ghGetOrInit_origin p init w0 = (Inr (org, j, s), w1)"
    and "mutator j w1 = (Inr (j', u), w2)"
    and "ghPut p u (Some s) msg w2 = (r, w3)"
  shows "ghUpdate p mutator init msg w0 =
     (case r of
        Inr x \<Rightarrow> (Inr u, w3)
      | Inl e \<Rightarrow>
          if e = HttpStatus 409
          then bnd (ghGetOrInit p (if org = Given then j' else init)) (\<lambda>(fresh_json, fresh_sha).
               bnd (mutator fresh_json) (\<lambda>(fresh_now, u2).
               bnd (ghPut p u2 (Some fresh_sha) (msg @ '' (retry)'')) (\<lambda>_. ret u2))) w3
          else (Inl e, w3))"
  using assms
  by (simp add: ghUpdate_def bnd_def catch_def ret_def throw_def split: sum.splits)

text \<open>An update whose first read parses the file, or whose mutator leaves its argument
  alone, reads with the initial value given both times.\<close>

lemma ghUpdate_by_value:
  assumes "ghGetOrInit_origin p init w0 = (Inr (org, j, s), w1)"
    and "mutator j w1 = (Inr (j', u), w2)"
    and "org = Parsed \<or> j' = j"
  shows "ghUpdate p mutator init msg w0 =
     (case ghPut p u (Some s) msg w2 of
        (Inr x, w3) \<Rightarrow> (Inr u, w3)
      | (Inl e, w3) \<Rightarrow>
          if e = HttpStatus 409
          then bnd (ghGetOrInit p init) (\<lambda>(fresh_json, fresh_sha).
               bnd (mutator fresh_json) (\<lambda>(fresh_now, u2).
               bnd (ghPut p u2 (Some fresh_sha) (msg @ '' (retry)'')) (\<lambda>_. ret u2))) w3
          else (Inl e, w3))"
proof -
  obtain r w3 where put: "ghPut p u (Some s) msg w2 = (r, w3)" by fastforce
  have init_now: "(if org = Given then j' else init) = init"
    using assms(3) ghGetOrInit_origin_Given [of p init w0 j s w1] assms(1)
    by (cases org) auto
  show ?thesis
    using ghUpdate_course [where mutator = mutator, OF assms(1,2) put]
    unfolding init_now put by (simp split: sum.splits)
qed

text \<open>A read that finds the file does not use the initial value.\<close>

lemma ghGetOrInit_found:
  "fst (gh_get p w) \<noteq> Inl (HttpStatus 404) \<Longrightarrow> ghGetOrInit p init w = ghGetOrInit p init' w"
  by (cases "gh_get p w")
     (auto simp: ghGetOrInit_def io_defs parse_def split: sum.splits blob.splits)

text \<open>
  C1 (a defect of the code). The update is the one the claim describes whenever its first
  read parses the file or its mutator leaves the object it is given unchanged, and a retry
  whose read finds the file does not use the initial value. It is not when both reads find
  the file missing and the mutator changes its argument, as the mutator of the add handler
  does. In the store below the catalog does not exist; the update creates it, another
  writer commits to it and then deletes it. The first write meets a version conflict, and
  the retry creates the file again: not with the initial value \<^verbatim>\<open>{ urls: [] }\<close> that the
  handler passes, as the traced writes show, but with the catalog that already holds the
  new entry, to which the mutator then adds a second entry. One add leaves two entries.
\<close>

theorem ghUpdate_retry_reuses_changed_initial:
  "fst (full_add_update recreating_world) =
     Inr [(''urls'', JArr [full_entry ''id0'' 1700000000000, full_entry ''id1'' 1700000000001])]
   \<and> files (snd (full_add_update recreating_world)) URLS_PATH =
     Some (Doc [(''urls'', JArr [full_entry ''id0'' 1700000000000,
                                 full_entry ''id1'' 1700000000001])], 103)
   \<and> trace (snd (full_add_update recreating_world)) =
     [Get URLS_PATH,
      Put URLS_PATH [(''urls'', JArr [])] None ''init data/urls.json'',
      Put URLS_PATH [(''urls'', JArr [full_entry ''id0'' 1700000000000])] (Some 100)
        ''admin add url'',
      Get URLS_PATH,
      Put URLS_PATH [(''urls'', JArr [full_entry ''id0'' 1700000000000])] None
        ''init data/urls.json'',
      Put URLS_PATH [(''urls'', JArr [full_entry ''id0'' 1700000000000,
                                      full_entry ''id1'' 1700000000001])] (Some 102)
        ''admin add url (retry)'']"
  by code_simp

text \<open>The add handler makes this update for the request \<open>full_add\<close>, and answers with the
  identifier of the second entry.\<close>

lemma post_add_recreating:
  "fst (post_add full_add recreating_world) =
     Inr (200, [(''ok'', JBool True), (''id'', JStr ''id1'')])
   \<and> files (snd (post_add full_add recreating_world)) URLS_PATH =
     Some (Doc [(''urls'', JArr [full_entry ''id0'' 1700000000000,
                                 full_entry ''id1'' 1700000000001])], 103)"
  by code_simp

lemma gh_put_written:
  "gh_put p v sha msg w = (Inr s, w') \<Longrightarrow> files w' p = Some (Doc v, s)"
  by (auto simp: gh_put_def split: prod.splits event.splits if_splits)

text \<open>
  C7. When the file is missing (the read answers 404) and the creating write succeeds,
  \<^verbatim>\<open>ghGetOrInit\<close> returns the initial value with the new version token, and the file
  then holds the initial value under that token. An error of the creating write
  propagates, and so does every error of the read other than 404. Against an empty,
  undisturbed store \<^verbatim>\<open>GET /api/urls\<close> answers 200 with ok true, enabled true and no urls.
\<close>

theorem ghGetOrInit_missing:
  "(gh_get p w = (Inl (HttpStatus 404), wa) \<longrightarrow>
      gh_put p init None (''init '' @ p) wa = (Inr s, wb) \<longrightarrow>
      ghGetOrInit p init w = (Inr (init, s), wb) \<and> files wb p = Some (Doc init, s))
   \<and> (gh_get p w = (Inl (HttpStatus 404), wa) \<longrightarrow>
      gh_put p init None (''init '' @ p) wa = (Inl e', wb) \<longrightarrow>
      ghGetOrInit p init w = (Inl e', wb))
   \<and> (gh_get p w = (Inl e, wa) \<longrightarrow> e \<noteq> HttpStatus 404 \<longrightarrow>
      ghGetOrInit p init w = (Inl e, wa))
   \<and> (files wq = Map.empty \<longrightarrow> script wq = [] \<longrightarrow>
      fst (get_urls req wq) =
        Inr (200, [(''ok'', JBool True), (''enabled'', JBool True), (''urls'', JArr [])]))"
proof (intro conjI impI)
  assume "gh_get p w = (Inl (HttpStatus 404), wa)"
    and "gh_put p init None (''init '' @ p) wa = (Inr s, wb)"
  then show "ghGetOrInit p init w = (Inr (init, s), wb)"
    by (simp add: ghGetOrInit_def ghPut_def io_defs)
next
  assume "gh_put p init None (''init '' @ p) wa = (Inr s, wb)"
  then show "files wb p = Some (Doc init, s)" by (rule gh_put_written)
next
  assume "gh_get p w = (Inl (HttpStatus 404), wa)"
    and "gh_put p init None (''init '' @ p) wa = (Inl e', wb)"
  then show "ghGetOrInit p init w = (Inl e', wb)"
    by (simp add: ghGetOrInit_def ghPut_def io_defs)
next
  assume "gh_get p w = (Inl e, wa)" and "e \<noteq> HttpStatus 404"
  then show "ghGetOrInit p init w = (Inl e, wa)"
    by (simp add: ghGetOrInit_def io_defs)
next
  assume "files wq = Map.empty" and "script wq = []"
  then show "fst (get_urls req wq) =
        Inr (200, [(''ok'', JBool True), (''enabled'', JBool True), (''urls'', JArr [])])"
    by (simp add: get_urls_def respond_def gh_defs api_defs io_defs path_defs init_defs)
qed


theorem ghGetOrInit_missing_witness:
  "ghGetOrInit ''d'' [(''k'', JNum 1)] (demo_world Map.empty []) =
     (Inr ([(''k'', JNum 1)], 100),
      snd (gh_put ''d'' [(''k'', JNum 1)] None ''init d'' (snd (gh_get ''d'' (demo_world Map.empty [])))))
   \<and> files (snd (ghGetOrInit ''d'' [(''k'', JNum 1)] (demo_world Map.empty []))) ''d'' =
       Some (Doc [(''k'', JNum 1)], 100)
   \<and> fst (ghGetOrInit ''d'' [(''k'', JNum 1)] (demo_world Map.empty [Proceed, Fail NoResponse])) =
       Inl NoResponse
   \<and> fst (ghGetOrInit ''d'' [(''k'', JNum 1)] (demo_world Map.empty [Fail (HttpStatus 500)])) =
       Inl (HttpStatus 500)
   \<and> fst (get_urls demo_request (demo_world Map.empty [])) =
       Inr (200, [(''ok'', JBool True), (''enabled'', JBool True), (''urls'', JArr [])])"
proof -
  let ?init = "[(''k'', JNum 1)]"
  define w where "w = demo_world Map.empty []"
  define w1 where "w1 = snd (gh_get ''d'' w)"
  define w2 where "w2 = snd (gh_put ''d'' ?init None ''init d'' w1)"
  have g: "gh_get ''d'' w = (Inl (HttpStatus 404), w1)"
    unfolding w1_def w_def by (simp add: prod_eq_iff demo_defs api_defs)
  have p: "gh_put ''d'' ?init None (''init '' @ ''d'') w1 = (Inr 100, w2)"
    unfolding w2_def w1_def w_def by (simp add: prod_eq_iff demo_defs api_defs)
  have a: "ghGetOrInit ''d'' ?init w = (Inr (?init, 100), w2) \<and> files w2 ''d'' = Some (Doc ?init, 100)"
    using ghGetOrInit_missing [where p = "''d''" and w = w and wa = w1 and init = ?init and s = 100 and wb = w2] g p by blast
  define v where "v = demo_world Map.empty [Proceed, Fail NoResponse]"
  define v1 where "v1 = snd (gh_get ''d'' v)"
  define v2 where "v2 = snd (gh_put ''d'' ?init None ''init d'' v1)"
  have g': "gh_get ''d'' v = (Inl (HttpStatus 404), v1)"
    unfolding v1_def v_def by (simp add: prod_eq_iff demo_defs api_defs)
  have p': "gh_put ''d'' ?init None (''init '' @ ''d'') v1 = (Inl NoResponse, v2)"
    unfolding v2_def v1_def v_def by (simp add: prod_eq_iff demo_defs api_defs)
  have b: "ghGetOrInit ''d'' ?init v = (Inl NoResponse, v2)"
    using ghGetOrInit_missing [where p = "''d''" and w = v and wa = v1 and init = ?init and e' = NoResponse and wb = v2] g' p' by blast
  define x where "x = demo_world Map.empty [Fail (HttpStatus 500)]"
  define x1 where "x1 = snd (gh_get ''d'' x)"
  have g'': "gh_get ''d'' x = (Inl (HttpStatus 500), x1)"
    unfolding x1_def x_def by (simp add: prod_eq_iff demo_defs api_defs)
  have c: "ghGetOrInit ''d'' ?init x = (Inl (HttpStatus 500), x1)"
    using ghGetOrInit_missing [where p = "''d''" and w = x and wa = x1 and init = ?init and e = "HttpStatus 500"] g'' by simp
  have d: "fst (get_urls demo_request w) =
       Inr (200, [(''ok'', JBool True), (''enabled'', JBool True), (''urls'', JArr [])])"
    using ghGetOrInit_missing [where wq = w and req = demo_request]
    by (simp add: w_def demo_defs)
  from a b c d show ?thesis
    unfolding w2_def w1_def w_def v_def x_def by simp
qed

section \<open>Properties of the middleware\<close>

lemma replace_first_prefix: "replace_first pat rep (pat @ t) = rep @ t"
proof (cases pat)
  case Nil
  then show ?thesis by (cases t) auto
next
  case (Cons c cs)
  then show ?thesis by simp
qed

lemma replace_first_absent: "\<not> occurs pat s \<Longrightarrow> replace_first pat rep s = s"
  by (induction s) auto

lemma replace_first_inner:
  "\<not> occurs pat (a @ butlast pat) \<Longrightarrow> replace_first pat rep (a @ pat @ b) = a @ rep @ b"
proof (induction a)
  case Nil
  then show ?case by (simp add: replace_first_prefix)
next
  case (Cons c a)
  have ne: "pat \<noteq> []" using Cons.prems by (cases pat) auto
  have "take (length pat) ((c # a) @ pat @ b) = take (length pat) ((c # a) @ butlast pat)"
  proof -
    have "(c # a) @ pat @ b = ((c # a) @ butlast pat) @ (last pat # b)"
      using ne by simp
    moreover have "length pat \<le> length ((c # a) @ butlast pat)" by simp
    ultimately show ?thesis by (metis take_append diff_is_0_eq take_0 append_Nil2)
  qed
  with Cons show ?case by auto
qed

text \<open>
  C10, as amended. \<^verbatim>\<open>auth\<close> removes the first occurrence of the word Bearer and
  the blank after it, wherever it stands in the header, and looks the rest up in the token
  set. So a stored non-empty token \<open>t\<close> is accepted behind the prefix, accepted alone when
  the pattern does not occur in it, and accepted with the pattern inserted at any place
  before which it does not occur; a header whose stripped form is not a stored token, and
  a missing header, are answered 401.
\<close>

theorem auth_strips_first_occurrence:
  "(t \<in> tokens w \<longrightarrow> t \<noteq> [] \<longrightarrow> authorization req = Some (''Bearer '' @ t) \<longrightarrow>
      auth req handler w = handler w)
   \<and> (t \<in> tokens w \<longrightarrow> t \<noteq> [] \<longrightarrow> \<not> occurs ''Bearer '' t \<longrightarrow> authorization req = Some t \<longrightarrow>
      auth req handler w = handler w)
   \<and> (a @ b \<in> tokens w \<longrightarrow> a @ b \<noteq> [] \<longrightarrow> \<not> occurs ''Bearer '' (a @ ''Bearer'') \<longrightarrow>
      authorization req = Some (a @ ''Bearer '' @ b) \<longrightarrow> auth req handler w = handler w)
   \<and> (authorization req = Some h \<longrightarrow> replace_first ''Bearer '' [] h \<notin> tokens w \<longrightarrow>
      auth req handler w = respond 401 (failure ''unauthorized'') w)
   \<and> (authorization req = None \<longrightarrow> auth req handler w = respond 401 (failure ''unauthorized'') w)"
proof (intro conjI impI)
  assume "t \<in> tokens w" "t \<noteq> []" "authorization req = Some (''Bearer '' @ t)"
  then show "auth req handler w = handler w"
    using replace_first_prefix [of "''Bearer ''" "[]" t]
    by (simp add: auth_def or_str_def del: replace_first.simps)
next
  assume "t \<in> tokens w" "t \<noteq> []" "\<not> occurs ''Bearer '' t" "authorization req = Some t"
  then show "auth req handler w = handler w"
    using replace_first_absent [of "''Bearer ''" t "[]"]
    by (simp add: auth_def or_str_def del: replace_first.simps)
next
  assume "a @ b \<in> tokens w" "a @ b \<noteq> []" "\<not> occurs ''Bearer '' (a @ ''Bearer'')"
    "authorization req = Some (a @ ''Bearer '' @ b)"
  then show "auth req handler w = handler w"
    using replace_first_inner [of "''Bearer ''" a "[]" b]
    by (auto simp: auth_def or_str_def simp del: replace_first.simps occurs.simps)
next
  assume "authorization req = Some h" "replace_first ''Bearer '' [] h \<notin> tokens w"
  then show "auth req handler w = respond 401 (failure ''unauthorized'') w"
    by (cases h) (simp_all add: auth_def or_str_def Let_def del: replace_first.simps(2))
next
  assume "authorization req = None"
  then show "auth req handler w = respond 401 (failure ''unauthorized'') w"
    by (simp add: auth_def or_str_def)
qed


lemmas handler_defs = auth_def respond_def failure_def body_field_def get_root_def
  delete_remove_def post_toggle_def remove_mutator_def assign_removed_def read_removed_def
  other_id_def
  nanoid_def Date_now_def js_or_def or_str_def

theorem auth_strips_first_occurrence_witness:
  "auth demo_request (get_root demo_request) (demo_world no_files []) =
     get_root demo_request (demo_world no_files [])
   \<and> auth (demo_request\<lparr>authorization := Some ''adm_secret''\<rparr>) (get_root demo_request)
       (demo_world no_files []) = get_root demo_request (demo_world no_files [])
   \<and> auth inner_bearer_request (get_root demo_request) (demo_world no_files []) =
       get_root demo_request (demo_world no_files [])
   \<and> auth (demo_request\<lparr>authorization := Some ''Bearer nope''\<rparr>) (get_root demo_request)
       (demo_world no_files []) = respond 401 (failure ''unauthorized'') (demo_world no_files [])
   \<and> auth (demo_request\<lparr>authorization := None\<rparr>) (get_root demo_request)
       (demo_world no_files []) = respond 401 (failure ''unauthorized'') (demo_world no_files [])"
proof -
  let ?w = "demo_world no_files []"
  let ?next = "get_root demo_request"
  have a: "auth demo_request ?next ?w = ?next ?w"
    using auth_strips_first_occurrence [where t = "''adm_secret''" and w = ?w and req = demo_request
        and handler = ?next]
    by (simp add: demo_defs)
  have b: "auth (demo_request\<lparr>authorization := Some ''adm_secret''\<rparr>) ?next ?w = ?next ?w"
    using auth_strips_first_occurrence [where t = "''adm_secret''" and w = ?w
        and req = "demo_request\<lparr>authorization := Some ''adm_secret''\<rparr>" and handler = ?next]
    by (simp add: demo_defs)
  have c: "auth inner_bearer_request ?next ?w = ?next ?w"
    using auth_strips_first_occurrence [where a = "''adm_''" and b = "''secret''" and w = ?w
        and req = inner_bearer_request and handler = ?next]
    by (simp add: demo_defs inner_bearer_request_def)
  have d: "auth (demo_request\<lparr>authorization := Some ''Bearer nope''\<rparr>) ?next ?w =
      respond 401 (failure ''unauthorized'') ?w"
    using auth_strips_first_occurrence [where h = "''Bearer nope''" and w = ?w
        and req = "demo_request\<lparr>authorization := Some ''Bearer nope''\<rparr>" and handler = ?next]
    by (simp add: demo_defs)
  have e: "auth (demo_request\<lparr>authorization := None\<rparr>) ?next ?w =
      respond 401 (failure ''unauthorized'') ?w"
    using auth_strips_first_occurrence [where w = ?w
        and req = "demo_request\<lparr>authorization := None\<rparr>" and handler = ?next]
    by (simp add: demo_defs)
  from a b c d e show ?thesis by blast
qed

text \<open>C10 as stated fails: the header below is neither a stored token nor a stored token
  behind the prefix, and the guarded handler runs.\<close>

theorem auth_inner_bearer_counterexample:
  "tokens (demo_world no_files []) = {''adm_secret''}
   \<and> authorization inner_bearer_request = Some ''adm_Bearer secret''
   \<and> ''adm_Bearer secret'' \<noteq> ''adm_secret''
   \<and> ''adm_Bearer secret'' \<noteq> ''Bearer '' @ ''adm_secret''
   \<and> fst (delete_remove inner_bearer_request (demo_world no_files [])) =
       Inr (200, [(''ok'', JBool True), (''removed'', JNum 0)])"
  by (simp add: inner_bearer_request_def demo_defs no_files_def handler_defs gh_defs api_defs
      io_defs path_defs init_defs)

section \<open>Properties of the page meta probe\<close>

lemmas probe_defs = getPageMeta_def probe_page_def probe_fallback_def new_URL_def
  assign_title_def assign_favicon_def

lemma first_nonempty3:
  "or_str a (or_str b (or_str c [])) = (case first_nonempty [a, b, c] of None \<Rightarrow> [] | Some h \<Rightarrow> h)"
  by (auto simp: or_str_def first_nonempty_def split: option.splits)

lemma or_str_self: "or_str (Some s) [] = s"
  by (simp add: or_str_def)

lemma first_nonempty_not_empty: "first_nonempty as \<noteq> Some []"
  by (induction as) (auto simp: first_nonempty_def split: list.splits)

text \<open>
  C8. \<^verbatim>\<open>getPageMeta\<close> returns for every input and never throws. When the page is
  fetched, the favicon is the first present and non-empty reference among the icon, the
  shortcut icon and the apple-touch-icon links, in that order, resolved against the input
  URL, and the title is the page's; when no link gives a reference the favicon is the
  input's origin followed by \<^verbatim>\<open>/favicon.ico\<close>; when the fetch fails the favicon is that
  same fallback and the title is empty. The resolution and the origin are those of the
  platform's \<^verbatim>\<open>URL\<close> class, for inputs and references it accepts.
\<close>

theorem getPageMeta_total:
  "(\<exists>m. fst (getPageMeta targetUrl w) = Inr m)
   \<and> (web (env w) targetUrl = Inr pg \<longrightarrow>
        first_nonempty [icon pg, shortcut_icon pg, apple_touch_icon pg] = Some h \<longrightarrow>
        url_href (env w) h targetUrl = Some absolute \<longrightarrow>
        fst (getPageMeta targetUrl w) = Inr \<lparr>meta_title = title_text pg, meta_favicon = absolute\<rparr>)
   \<and> (web (env w) targetUrl = Inr pg \<longrightarrow>
        first_nonempty [icon pg, shortcut_icon pg, apple_touch_icon pg] = None \<longrightarrow>
        url_origin (env w) targetUrl = Some origin \<longrightarrow>
        fst (getPageMeta targetUrl w) =
          Inr \<lparr>meta_title = title_text pg, meta_favicon = origin @ ''/favicon.ico''\<rparr>)
   \<and> (web (env w) targetUrl = Inl e \<longrightarrow>
        url_origin (env w) targetUrl = Some origin \<longrightarrow>
        fst (getPageMeta targetUrl w) =
          Inr \<lparr>meta_title = [], meta_favicon = origin @ ''/favicon.ico''\<rparr>)"
proof (intro conjI impI)
  show "\<exists>m. fst (getPageMeta targetUrl w) = Inr m"
    by (auto simp: probe_defs io_defs Let_def split: sum.splits option.splits prod.splits)
next
  assume "web (env w) targetUrl = Inr pg"
    and "first_nonempty [icon pg, shortcut_icon pg, apple_touch_icon pg] = Some h"
    and "url_href (env w) h targetUrl = Some absolute"
  moreover from this have "h \<noteq> []" using first_nonempty_not_empty by metis
  ultimately show "fst (getPageMeta targetUrl w) =
      Inr \<lparr>meta_title = title_text pg, meta_favicon = absolute\<rparr>"
    by (simp add: probe_defs io_defs first_nonempty3 or_str_self)
next
  assume "web (env w) targetUrl = Inr pg"
    and "first_nonempty [icon pg, shortcut_icon pg, apple_touch_icon pg] = None"
    and "url_origin (env w) targetUrl = Some origin"
  then show "fst (getPageMeta targetUrl w) =
      Inr \<lparr>meta_title = title_text pg, meta_favicon = origin @ ''/favicon.ico''\<rparr>"
    by (simp add: probe_defs io_defs first_nonempty3 or_str_self)
next
  assume "web (env w) targetUrl = Inl e" and "url_origin (env w) targetUrl = Some origin"
  then show "fst (getPageMeta targetUrl w) =
      Inr \<lparr>meta_title = [], meta_favicon = origin @ ''/favicon.ico''\<rparr>"
    by (simp add: probe_defs io_defs)
qed

theorem getPageMeta_total_witness:
  "fst (getPageMeta (JStr ''https://example.com/'') (demo_world no_files [])) =
     Inr \<lparr>meta_title = ''Example Domain'', meta_favicon = ''https://example.com/fav.png''\<rparr>
   \<and> fst (getPageMeta (JStr ''https://plain.example/'') (demo_world no_files [])) =
     Inr \<lparr>meta_title = ''Plain'', meta_favicon = ''https://plain.example/favicon.ico''\<rparr>
   \<and> fst (getPageMeta (JStr ''https://down.example/'') (demo_world no_files [])) =
     Inr \<lparr>meta_title = [], meta_favicon = ''https://down.example/favicon.ico''\<rparr>"
proof -
  let ?w = "demo_world no_files []"
  have a: "fst (getPageMeta (JStr ''https://example.com/'') ?w) =
     Inr \<lparr>meta_title = ''Example Domain'', meta_favicon = ''https://example.com/fav.png''\<rparr>"
    using getPageMeta_total [where w = ?w and targetUrl = "JStr ''https://example.com/''"
        and pg = "\<lparr>title_text = ''Example Domain'', icon = None,
                   shortcut_icon = Some ''/fav.png'', apple_touch_icon = Some ''/apple.png''\<rparr>"
        and h = "''/fav.png''" and absolute = "''https://example.com/fav.png''"]
    by (simp add: demo_defs first_nonempty_def)
  have b: "fst (getPageMeta (JStr ''https://plain.example/'') ?w) =
     Inr \<lparr>meta_title = ''Plain'', meta_favicon = ''https://plain.example/favicon.ico''\<rparr>"
    using getPageMeta_total [where w = ?w and targetUrl = "JStr ''https://plain.example/''"
        and pg = "\<lparr>title_text = ''Plain'', icon = None,
                   shortcut_icon = Some [], apple_touch_icon = None\<rparr>"
        and origin = "''https://plain.example''"]
    by (simp add: demo_defs first_nonempty_def)
  have c: "fst (getPageMeta (JStr ''https://down.example/'') ?w) =
     Inr \<lparr>meta_title = [], meta_favicon = ''https://down.example/favicon.ico''\<rparr>"
    using getPageMeta_total [where w = ?w and targetUrl = "JStr ''https://down.example/''"
        and e = NoResponse and origin = "''https://down.example''"]
    by (simp add: demo_defs)
  from a b c show ?thesis by blast
qed

section \<open>What the storage helpers leave alone\<close>

lemma same_locals_refl [simp]: "same_locals w w"
  by (simp add: same_locals_def)

lemma same_locals_trans: "same_locals w wa \<Longrightarrow> same_locals wa wb \<Longrightarrow> same_locals w wb"
  by (simp add: same_locals_def)

lemma interfere_local: "same_locals w (interfere ev w)"
  by (cases ev) (simp_all add: interfere_def same_locals_def)

lemma next_event_local: "same_locals w (snd (next_event w))"
proof (cases "script w")
  case Nil
  then show ?thesis by (simp add: next_event_def)
next
  case (Cons ev evs)
  have "same_locals w (w\<lparr>script := evs\<rparr>)" by (simp add: same_locals_def)
  from same_locals_trans [OF this interfere_local] Cons show ?thesis
    by (simp add: next_event_def)
qed

lemma emit_local: "same_locals w (emit c w)"
  by (simp add: emit_def same_locals_def)

lemma gh_get_local: "same_locals w (snd (gh_get p w))"
proof -
  obtain ev wa where n: "next_event (emit (Get p) w) = (ev, wa)" by fastforce
  have "same_locals w wa"
    using same_locals_trans [OF emit_local next_event_local, of w "Get p"] n by simp
  moreover have "snd (gh_get p w) = wa"
    using n by (cases ev; cases "files wa p") (simp_all add: gh_get_def)
  ultimately show ?thesis by simp
qed

lemma gh_put_local: "same_locals w (snd (gh_put p v sha msg w))"
proof -
  obtain ev wa where n: "next_event (emit (Put p v sha msg) w) = (ev, wa)" by fastforce
  have a: "same_locals w wa"
    using same_locals_trans [OF emit_local next_event_local, of w "Put p v sha msg"] n by simp
  have "same_locals wa (snd (gh_put p v sha msg w))"
    using n by (cases ev) (simp_all add: gh_put_def same_locals_def)
  with a show ?thesis by (rule same_locals_trans)
qed

lemma ghGetOrInit_local: "same_locals w (snd (ghGetOrInit p init w))"
proof -
  obtain g wa where g: "gh_get p w = (g, wa)" by fastforce
  have a: "same_locals w wa" using gh_get_local [of w p] g by simp
  show ?thesis
  proof (cases g)
    case (Inl e)
    show ?thesis
    proof (cases "e = HttpStatus 404")
      case True
      obtain q wb where q: "gh_put p init None (''init '' @ p) wa = (q, wb)" by fastforce
      have b: "same_locals wa wb" using gh_put_local [of wa p init None "''init '' @ p"] q by simp
      have "snd (ghGetOrInit p init w) = wb"
        using g Inl True q by (cases q) (simp_all add: ghGetOrInit_def ghPut_def io_defs)
      with same_locals_trans [OF a b] show ?thesis by simp
    next
      case False
      with g Inl have "snd (ghGetOrInit p init w) = wa"
        by (simp add: ghGetOrInit_def io_defs)
      with a show ?thesis by simp
    qed
  next
    case (Inr d)
    obtain b s where d: "d = (b, s)" by fastforce
    have "snd (ghGetOrInit p init w) = wa"
      using g Inr d by (cases b) (simp_all add: ghGetOrInit_def io_defs parse_def)
    with a show ?thesis by simp
  qed
qed

lemma ghRead_local: "same_locals w (snd (ghRead p init w))"
proof -
  obtain g wa where g: "ghGetOrInit p init w = (g, wa)" by fastforce
  then have "snd (ghRead p init w) = wa"
    by (cases g) (auto simp: ghRead_def io_defs)
  with ghGetOrInit_local [of w p init] g show ?thesis by simp
qed

section \<open>Properties of the public API\<close>

lemma strict_eq_str [simp]: "strict_eq a (Some (JStr s)) = (a = Some (JStr s))"
  by (cases "(a, Some (JStr s))" rule: strict_eq.cases) auto

lemma strict_eq_bool [simp]: "strict_eq a (Some (JBool b)) = (a = Some (JBool b))"
  by (cases "(a, Some (JBool b))" rule: strict_eq.cases) auto

lemma find_js_matches:
  "JNull \<notin> set xs \<Longrightarrow>
     find_js (matches rid) xs =
       Inr (find (\<lambda>u. prop_of u ''id'' = Some (JStr rid) \<and> prop_of u ''active'' \<noteq> Some (JBool False)) xs)"
  by (induction xs) (auto simp: matches_def is_active_def get_prop_def)

lemma prop_of_Some_obj: "prop_of u k = Some v \<Longrightarrow> \<exists>kvs. u = JObj kvs"
  by (cases u) auto

lemma find_Some_holds: "find P xs = Some x \<Longrightarrow> P x"
  by (induction xs) (auto split: if_splits)

lemma resolve_disabled:
  assumes "ghRead STATE_PATH init_state w = (Inr state, wa)"
    and "\<not> truthy_opt (map_of state ''enabled'')"
  shows "resolve req w = respond 403 (failure ''Access disabled'') wa"
  using assms by (simp add: resolve_def io_defs respond_def)

lemma resolve_enabled:
  assumes st: "ghRead STATE_PATH init_state w = (Inr state, wa)"
    "truthy_opt (map_of state ''enabled'')"
    and cat: "ghRead URLS_PATH init_urls wa = (Inr urls, wb)"
    "map_of urls ''urls'' = Some (JArr xs)" "JNull \<notin> set xs"
  shows "resolve req w =
        (case find (\<lambda>u. prop_of u ''id'' = Some (JStr (param_id req)) \<and>
                        prop_of u ''active'' \<noteq> Some (JBool False)) xs of
           None \<Rightarrow> respond 404 (failure ''Not found'') wb
         | Some item \<Rightarrow>
             respond 200 (literal [(''ok'', Some (JBool True)), (''id'', prop_of item ''id''),
                                   (''title'', prop_of item ''title''),
                                   (''favicon'', prop_of item ''favicon''),
                                   (''url'', prop_of item ''url'')]) wb)"
proof (cases "find (\<lambda>u. prop_of u ''id'' = Some (JStr (param_id req)) \<and>
                        prop_of u ''active'' \<noteq> Some (JBool False)) xs")
  case None
  with st cat show ?thesis
    by (simp add: resolve_def io_defs respond_def find_js_matches)
next
  case (Some item)
  from find_Some_holds [OF Some] obtain kvs where "item = JObj kvs"
    using prop_of_Some_obj by blast
  with Some st cat show ?thesis
    by (simp add: resolve_def io_defs respond_def find_js_matches get_prop_def)
qed

text \<open>
  C2. Once the state document is read, a falsy \<^verbatim>\<open>enabled\<close> (in particular
  \<^verbatim>\<open>false\<close>) makes \<^verbatim>\<open>GET /api/resolve/:id\<close> answer 403 in the world reached by that
  read alone: the catalog is not consulted, whatever the id. With a truthy \<^verbatim>\<open>enabled\<close>
  and a catalog read as an array of entries, the answer is 404 when no entry has the id
  and an \<^verbatim>\<open>active\<close> other than \<^verbatim>\<open>false\<close>, and otherwise 200 with id, title, favicon
  and url of the first such entry.
\<close>

theorem resolve_gate:
  "(ghRead STATE_PATH init_state w = (Inr state, wa) \<longrightarrow>
      \<not> truthy_opt (map_of state ''enabled'') \<longrightarrow>
      resolve req w = respond 403 (failure ''Access disabled'') wa)
   \<and> (ghRead STATE_PATH init_state w = (Inr state, wa) \<longrightarrow>
      truthy_opt (map_of state ''enabled'') \<longrightarrow>
      ghRead URLS_PATH init_urls wa = (Inr urls, wb) \<longrightarrow>
      map_of urls ''urls'' = Some (JArr xs) \<longrightarrow> JNull \<notin> set xs \<longrightarrow>
      resolve req w =
        (case find (\<lambda>u. prop_of u ''id'' = Some (JStr (param_id req)) \<and>
                        prop_of u ''active'' \<noteq> Some (JBool False)) xs of
           None \<Rightarrow> respond 404 (failure ''Not found'') wb
         | Some item \<Rightarrow>
             respond 200 (literal [(''ok'', Some (JBool True)), (''id'', prop_of item ''id''),
                                   (''title'', prop_of item ''title''),
                                   (''favicon'', prop_of item ''favicon''),
                                   (''url'', prop_of item ''url'')]) wb))"
  using resolve_disabled [of w state wa req] resolve_enabled [of w state wa urls wb xs req]
  by blast

lemmas gate_defs = gate_files_def no_files_def

theorem resolve_gate_witness:
  "fst (resolve (demo_request\<lparr>param_id := ''b2''\<rparr>) (demo_world (gate_files False) [])) =
     Inr (403, failure ''Access disabled'')
   \<and> trace (snd (resolve (demo_request\<lparr>param_id := ''b2''\<rparr>) (demo_world (gate_files False) []))) =
     [Get STATE_PATH, Respond 403 (failure ''Access disabled'')]
   \<and> fst (resolve (demo_request\<lparr>param_id := ''b2''\<rparr>) (demo_world (gate_files True) [])) =
     Inr (200, [(''ok'', JBool True), (''id'', JStr ''b2''), (''title'', JStr ''B''),
                (''favicon'', JStr ''https://b.example/favicon.ico''),
                (''url'', JStr ''https://b.example/'')])
   \<and> fst (resolve (demo_request\<lparr>param_id := ''a1''\<rparr>) (demo_world (gate_files True) [])) =
     Inr (404, failure ''Not found'')"
proof -
  let ?off = "demo_world (gate_files False) []"
  let ?on = "demo_world (gate_files True) []"
  let ?xs = "[JObj [(''id'', JStr ''a1''), (''url'', JStr ''https://a.example/''), (''title'', JStr ''A''),
                  (''favicon'', JStr ''https://a.example/favicon.ico''), (''active'', JBool False),
                  (''createdAt'', JNum 1)],
            JObj [(''id'', JStr ''b2''), (''url'', JStr ''https://b.example/''), (''title'', JStr ''B''),
                  (''favicon'', JStr ''https://b.example/favicon.ico''), (''active'', JBool True),
                  (''createdAt'', JNum 2)]]"
  define wa where "wa = snd (ghRead STATE_PATH init_state ?off)"
  have r0: "ghRead STATE_PATH init_state ?off = (Inr [(''enabled'', JBool False)], wa)"
    unfolding wa_def
    by (simp add: prod_eq_iff demo_defs gate_defs gh_defs api_defs io_defs path_defs)
  have off: "resolve (demo_request\<lparr>param_id := ''b2''\<rparr>) ?off =
      respond 403 (failure ''Access disabled'') wa"
    using resolve_gate [where w = ?off and state = "[(''enabled'', JBool False)]" and wa = wa
        and req = "demo_request\<lparr>param_id := ''b2''\<rparr>"] r0
    by simp
  have tr: "trace wa = [Get STATE_PATH]"
    unfolding wa_def
    by (simp add: demo_defs gate_defs gh_defs api_defs io_defs path_defs)
  define va where "va = snd (ghRead STATE_PATH init_state ?on)"
  define vb where "vb = snd (ghRead URLS_PATH init_urls va)"
  have r1: "ghRead STATE_PATH init_state ?on = (Inr [(''enabled'', JBool True)], va)"
    unfolding va_def
    by (simp add: prod_eq_iff demo_defs gate_defs gh_defs api_defs io_defs path_defs)
  have r2: "ghRead URLS_PATH init_urls va = (Inr [(''urls'', JArr ?xs)], vb)"
    unfolding vb_def va_def
    by (simp add: prod_eq_iff demo_defs gate_defs gh_defs api_defs io_defs path_defs)
  have on_b: "fst (resolve (demo_request\<lparr>param_id := ''b2''\<rparr>) ?on) =
     Inr (200, [(''ok'', JBool True), (''id'', JStr ''b2''), (''title'', JStr ''B''),
                (''favicon'', JStr ''https://b.example/favicon.ico''),
                (''url'', JStr ''https://b.example/'')])"
    using resolve_gate [where w = ?on and state = "[(''enabled'', JBool True)]" and wa = va
        and urls = "[(''urls'', JArr ?xs)]" and wb = vb and xs = ?xs
        and req = "demo_request\<lparr>param_id := ''b2''\<rparr>"] r1 r2
    by (simp add: respond_def)
  have on_a: "fst (resolve (demo_request\<lparr>param_id := ''a1''\<rparr>) ?on) =
     Inr (404, failure ''Not found'')"
    using resolve_gate [where w = ?on and state = "[(''enabled'', JBool True)]" and wa = va
        and urls = "[(''urls'', JArr ?xs)]" and wb = vb and xs = ?xs
        and req = "demo_request\<lparr>param_id := ''a1''\<rparr>"] r1 r2
    by (simp add: respond_def)
  from off tr on_b on_a show ?thesis
    by (simp add: respond_def emit_def)
qed

section \<open>Properties of the login\<close>

text \<open>\<^verbatim>\<open>String\<close> of numbers: exact up to \<open>2\<^sup>5\<^sup>3\<close>, rounded to a double beyond, with an
  exponent from \<open>10\<^sup>2\<^sup>1\<close> on. A pin is compared with what \<^verbatim>\<open>String\<close> makes of an entry.\<close>

lemma number_text_examples:
  "number_text 2468 = ''2468''"
  "number_text 9007199254740993 = ''9007199254740992''"
  "number_text 1000000000000000000000 = ''1e+21''"
  by code_simp+

lemma login_number_entry:
  "fst (login (pin_request ''1e+21'') (demo_world number_pin_files [])) =
     Inr (200, [(''ok'', JBool True), (''token'', JStr ''adm_id0'')])
   \<and> fst (login (pin_request ''1000000000000000000000'') (demo_world number_pin_files [])) =
     Inr (401, failure ''bad pin'')"
  by code_simp

lemma all_right_strings: "all_right (map js_String (map JStr ps)) = Inr ps"
  by (induction ps) simp_all

lemma checkPin_strings:
  assumes "ghRead PINS_PATH init_pins w = (Inr pins, wa)"
    and "map_of pins ''pins'' = Some (JArr (map JStr ps))"
  shows "checkPin (JStr p) w = (Inr (Some (JBool (p \<in> set ps))), wa)"
  using assms by (simp add: checkPin_def io_defs all_right_strings [simplified])

text \<open>
  C6, as amended. With a pins document that is read and holds a list of strings: a
  non-empty pin string that is in the list is answered 200 with the token made of
  \<^verbatim>\<open>adm_\<close> and the next identifier, the token joins the token set, and a later request
  carrying it behind the Bearer prefix passes \<^verbatim>\<open>auth\<close>; a pin string that is not in the
  list is answered 401 and leaves the token set as it was. A missing pin and a falsy one,
  the empty string among them, are answered 401 at once, whatever the list holds: the pins
  document is not read and nothing but the response happens.
\<close>

theorem login_issues_token:
  "(body_field req ''pin'' = Some (JStr p) \<longrightarrow> p \<noteq> [] \<longrightarrow>
      ghRead PINS_PATH init_pins w = (Inr pins, wa) \<longrightarrow>
      map_of pins ''pins'' = Some (JArr (map JStr ps)) \<longrightarrow> p \<in> set ps \<longrightarrow>
      fst (login req w) =
        Inr (200, [(''ok'', JBool True), (''token'', JStr (''adm_'' @ ids (env w) (drawn w)))])
      \<and> tokens (snd (login req w)) = insert (''adm_'' @ ids (env w) (drawn w)) (tokens w)
      \<and> auth (other\<lparr>authorization := Some (''Bearer '' @ ''adm_'' @ ids (env w) (drawn w))\<rparr>)
            handler (snd (login req w)) = handler (snd (login req w)))
   \<and> (body_field req ''pin'' = Some (JStr p) \<longrightarrow>
      ghRead PINS_PATH init_pins w = (Inr pins, wa) \<longrightarrow>
      map_of pins ''pins'' = Some (JArr (map JStr ps)) \<longrightarrow> p \<notin> set ps \<longrightarrow>
      fst (login req w) = Inr (401, failure ''bad pin'')
      \<and> tokens (snd (login req w)) = tokens w)
   \<and> (\<not> truthy_opt (body_field req ''pin'') \<longrightarrow>
      login req w = respond 401 (failure ''bad pin'') w
      \<and> tokens (snd (login req w)) = tokens w)"
proof (intro conjI impI)
  let ?t = "''adm_'' @ ids (env w) (drawn w)"
  assume pin: "body_field req ''pin'' = Some (JStr p)" "p \<noteq> []"
    and rd: "ghRead PINS_PATH init_pins w = (Inr pins, wa)"
    and arr: "map_of pins ''pins'' = Some (JArr (map JStr ps))" and mem: "p \<in> set ps"
  have loc: "same_locals w wa" using ghRead_local [of w PINS_PATH init_pins] rd by simp
  have chk: "checkPin (JStr p) w = (Inr (Some (JBool True)), wa)"
    using checkPin_strings [OF rd arr, of p] mem by simp
  have run: "login req w =
      (Inr (200, [(''ok'', JBool True), (''token'', JStr ?t)]),
       emit (Respond 200 [(''ok'', JBool True), (''token'', JStr ?t)])
         (wa\<lparr>drawn := Suc (drawn wa), tokens := insert ?t (tokens wa)\<rparr>))"
    using pin chk loc
    by (simp add: login_def randomToken_def add_token_def nanoid_def io_defs respond_def
        same_locals_def)
  show "fst (login req w) = Inr (200, [(''ok'', JBool True), (''token'', JStr ?t)])"
    by (simp add: run)
  show tk: "tokens (snd (login req w)) = insert ?t (tokens w)"
    using loc by (simp add: run emit_def same_locals_def)
  show "auth (other\<lparr>authorization := Some (''Bearer '' @ ?t)\<rparr>) handler (snd (login req w)) =
      handler (snd (login req w))"
    using tk replace_first_prefix [of "''Bearer ''" "[]" ?t]
    by (simp add: auth_def or_str_def del: replace_first.simps)
next
  assume pin: "body_field req ''pin'' = Some (JStr p)"
    and rd: "ghRead PINS_PATH init_pins w = (Inr pins, wa)"
    and arr: "map_of pins ''pins'' = Some (JArr (map JStr ps))" and mem: "p \<notin> set ps"
  have loc: "same_locals w wa" using ghRead_local [of w PINS_PATH init_pins] rd by simp
  have chk: "checkPin (JStr p) w = (Inr (Some (JBool False)), wa)"
    using checkPin_strings [OF rd arr, of p] mem by simp
  have run: "login req w =
      (if p = [] then respond 401 (failure ''bad pin'') w else respond 401 (failure ''bad pin'') wa)"
    using pin chk by (simp add: login_def io_defs)
  show "fst (login req w) = Inr (401, failure ''bad pin'')"
    by (simp add: run respond_def)
  show "tokens (snd (login req w)) = tokens w"
    using loc by (simp add: run respond_def emit_def same_locals_def)
next
  assume pin: "\<not> truthy_opt (body_field req ''pin'')"
  then show run: "login req w = respond 401 (failure ''bad pin'') w"
    by (cases "body_field req ''pin''") (simp_all add: login_def)
  show "tokens (snd (login req w)) = tokens w"
    by (simp add: run respond_def emit_def)
qed


lemma demo_first_id: "ids demo_platform 0 = ''id0''"
  by code_simp

theorem login_issues_token_witness:
  "fst (login (pin_request ''2468'') (demo_world empty_pin_files [])) =
     Inr (200, [(''ok'', JBool True), (''token'', JStr ''adm_id0'')])
   \<and> tokens (snd (login (pin_request ''2468'') (demo_world empty_pin_files []))) =
     {''adm_id0'', ''adm_secret''}
   \<and> auth (demo_request\<lparr>authorization := Some ''Bearer adm_id0''\<rparr>) (get_root demo_request)
        (snd (login (pin_request ''2468'') (demo_world empty_pin_files []))) =
      get_root demo_request (snd (login (pin_request ''2468'') (demo_world empty_pin_files [])))
   \<and> fst (login (pin_request ''1234'') (demo_world empty_pin_files [])) =
     Inr (401, failure ''bad pin'')
   \<and> tokens (snd (login (pin_request ''1234'') (demo_world empty_pin_files []))) = {''adm_secret''}
   \<and> login demo_request (demo_world empty_pin_files []) =
     respond 401 (failure ''bad pin'') (demo_world empty_pin_files [])
   \<and> login (pin_request []) (demo_world empty_pin_files []) =
     respond 401 (failure ''bad pin'') (demo_world empty_pin_files [])
   \<and> tokens (snd (login (pin_request []) (demo_world empty_pin_files []))) = {''adm_secret''}"
proof -
  let ?w = "demo_world empty_pin_files []"
  let ?pins = "[(''pins'', JArr [JStr [], JStr ''2468''])]"
  define wa where "wa = snd (ghRead PINS_PATH init_pins ?w)"
  have rd: "ghRead PINS_PATH init_pins ?w = (Inr ?pins, wa)"
    unfolding wa_def
    by (simp add: prod_eq_iff demo_defs empty_pin_files_def no_files_def gh_defs api_defs io_defs)
  have e: "env ?w = demo_platform" "drawn ?w = 0" "tokens ?w = {''adm_secret''}"
    by (simp_all add: demo_world_def)
  have good: "fst (login (pin_request ''2468'') ?w) =
        Inr (200, [(''ok'', JBool True), (''token'', JStr ''adm_id0'')])
      \<and> tokens (snd (login (pin_request ''2468'') ?w)) = insert ''adm_id0'' {''adm_secret''}
      \<and> auth (demo_request\<lparr>authorization := Some ''Bearer adm_id0''\<rparr>) (get_root demo_request)
            (snd (login (pin_request ''2468'') ?w)) =
          get_root demo_request (snd (login (pin_request ''2468'') ?w))"
    using login_issues_token [where req = "pin_request ''2468''" and p = "''2468''" and w = ?w
        and pins = ?pins and wa = wa and ps = "[[], ''2468'']"
        and other = demo_request and handler = "get_root demo_request"] rd
    by (simp add: e demo_first_id pin_request_def body_field_def js_or_def demo_request_def)
  have bad: "fst (login (pin_request ''1234'') ?w) = Inr (401, failure ''bad pin'')
      \<and> tokens (snd (login (pin_request ''1234'') ?w)) = {''adm_secret''}"
    using login_issues_token [where req = "pin_request ''1234''" and p = "''1234''" and w = ?w
        and pins = ?pins and wa = wa and ps = "[[], ''2468'']"] rd
    by (simp add: e pin_request_def body_field_def js_or_def demo_request_def)
  have none: "login demo_request ?w = respond 401 (failure ''bad pin'') ?w"
    using login_issues_token [where req = demo_request and w = ?w]
    by (simp add: body_field_def js_or_def demo_request_def)
  have empty: "login (pin_request []) ?w = respond 401 (failure ''bad pin'') ?w
      \<and> tokens (snd (login (pin_request []) ?w)) = {''adm_secret''}"
    using login_issues_token [where req = "pin_request []" and w = ?w]
    by (simp add: e body_field_def js_or_def pin_request_def demo_request_def respond_def
        emit_def)
  from good bad none empty show ?thesis by (simp add: respond_def emit_def demo_world_def)
qed

text \<open>C6 as stated fails for the empty pin: it is an element of the pin list below and the
  login is answered 401, because the handler rejects a falsy pin before it reads the list.\<close>

theorem login_empty_pin_counterexample:
  "files (demo_world empty_pin_files []) PINS_PATH =
     Some (Doc [(''pins'', JArr [JStr [], JStr ''2468''])], 1)
   \<and> body (pin_request []) = Some (JObj [(''pin'', JStr [])])
   \<and> fst (login (pin_request []) (demo_world empty_pin_files [])) =
     Inr (401, failure ''bad pin'')"
  by (simp add: demo_world_def empty_pin_files_def no_files_def pin_request_def demo_request_def
      login_def body_field_def js_or_def respond_def)

section \<open>Undisturbed worlds\<close>

lemma gh_get_quiet:
  "script w = [] \<Longrightarrow>
     gh_get p w =
       (case files w p of None \<Rightarrow> Inl (HttpStatus 404) | Some d \<Rightarrow> Inr d, emit (Get p) w)"
  by (simp add: gh_get_def next_event_def emit_def split: option.splits)

lemma gh_put_quiet:
  "script w = [] \<Longrightarrow>
     gh_put p v sha msg w =
       (if sha = None \<or> map_option snd (files w p) = sha
        then (Inr (commits w),
              (emit (Put p v sha msg) w)
                \<lparr>files := (files w)(p \<mapsto> (Doc v, commits w)), commits := Suc (commits w)\<rparr>)
        else (Inl (HttpStatus 409), emit (Put p v sha msg) w))"
  by (simp add: gh_put_def next_event_def emit_def)

lemma ghGetOrInit_quiet:
  assumes "script w = []" and "stored w p init d"
  shows "\<exists>b s w'. ghGetOrInit p init w = (Inr (d, s), w') \<and> files w' p = Some (b, s)
           \<and> parse b = Inr d \<and> commits w \<le> commits w' \<and> only_at p w w' \<and> same_locals w w'"
proof (cases "files w p")
  case None
  with assms have "d = init" by (simp add: stored_def)
  with None assms(1) show ?thesis
    by (simp add: ghGetOrInit_def ghPut_def gh_get_quiet gh_put_quiet io_defs emit_def
        only_at_def same_locals_def parse_def)
next
  case (Some a)
  obtain b s where a: "a = (b, s)" by fastforce
  with Some assms have "parse b = Inr d" by (simp add: stored_def)
  with Some a assms(1) show ?thesis
    by (simp add: ghGetOrInit_def gh_get_quiet io_defs emit_def only_at_def same_locals_def)
qed

lemma stored_after_read:
  assumes "files w' p = Some (b, s)" "parse b = Inr d"
  shows "stored w' p init d' \<longleftrightarrow> d' = d"
  using assms by (auto simp: stored_def)

lemma ghRead_quiet:
  assumes "script w = []" and "stored w p init d"
  shows "\<exists>w'. ghRead p init w = (Inr d, w') \<and> stored w' p init d \<and> only_at p w w'
           \<and> same_locals w w'"
proof -
  from ghGetOrInit_quiet [OF assms] obtain b s w' where
    "ghGetOrInit p init w = (Inr (d, s), w')" "files w' p = Some (b, s)" "parse b = Inr d"
    "only_at p w w'" "same_locals w w'" by blast
  then show ?thesis by (auto simp: ghRead_def io_defs stored_def)
qed




text \<open>A mutator that succeeds with \<open>u\<close> wherever the locals are those of \<open>w\<close>, touching
  nothing but the locals.\<close>

lemma ghUpdate_quiet:
  assumes q: "script w = []" and st: "stored w p init d"
    and mut: "\<And>wa. same_locals w wa \<Longrightarrow>
        mutator d wa = (Inr (d', u), g wa) \<and> files (g wa) = files wa \<and> script (g wa) = script wa
        \<and> commits (g wa) = commits wa \<and> trace (g wa) = trace wa"
  shows "\<exists>wa s w'. same_locals w wa \<and> ghUpdate p mutator init msg w = (Inr u, w')
           \<and> files w' p = Some (Doc u, s) \<and> only_at p w w' \<and> same_locals (g wa) w'"
proof -
  from ghGetOrInit_quiet [OF q st] obtain b s wa where
    rd: "ghGetOrInit p init w = (Inr (d, s), wa)" and f: "files wa p = Some (b, s)"
    and o: "only_at p w wa" and l: "same_locals w wa" by blast
  from ghGetOrInit_origin_Inr [OF rd] obtain org where
    rd': "ghGetOrInit_origin p init w = (Inr (org, d, s), wa)" by blast
  from mut [OF l] have m: "mutator d wa = (Inr (d', u), g wa)" and mf: "files (g wa) = files wa"
    and ms: "script (g wa) = script wa" by simp_all
  have qs: "script (g wa) = []" using ms o by (simp add: only_at_def)
  let ?w' = "(emit (Put p u (Some s) (if msg = [] then ''update '' @ p else msg)) (g wa))
                \<lparr>files := (files (g wa))(p \<mapsto> (Doc u, commits (g wa))),
                  commits := Suc (commits (g wa))\<rparr>"
  have put: "ghPut p u (Some s) msg (g wa) = (Inr (commits (g wa)), ?w')"
    using qs f mf by (simp add: ghPut_def gh_put_quiet)
  have run: "ghUpdate p mutator init msg w = (Inr u, ?w')"
    using ghUpdate_course [where mutator = mutator, OF rd' m put] by simp
  have "only_at p w ?w'"
    using o mf qs by (simp add: only_at_def emit_def)
  moreover have "same_locals (g wa) ?w'" by (simp add: same_locals_def emit_def)
  moreover have "files ?w' p = Some (Doc u, commits (g wa))" by (simp add: emit_def)
  ultimately show ?thesis using l run by blast
qed




section \<open>Computations that ignore the state document\<close>

lemma set_state_simps [simp]:
  "script (set_state x w) = script w" "env (set_state x w) = env w"
  "tokens (set_state x w) = tokens w" "drawn (set_state x w) = drawn w"
  "ticks (set_state x w) = ticks w" "removed (set_state x w) = removed w"
  "trace (set_state x w) = trace w" "commits (set_state x w) = commits w"
  "q \<noteq> STATE_PATH \<Longrightarrow> files (set_state x w) q = files w q"
  "files (set_state x w) STATE_PATH = x"
  by (simp_all add: set_state_def)

lemma set_state_same: "set_state (files w STATE_PATH) w = w"
  by (simp add: set_state_def)

lemma ignores_stateI:
  assumes "\<And>w x. script w = [] \<Longrightarrow> script (snd (m w)) = []"
    and "\<And>w x. script w = [] \<Longrightarrow> m (set_state x w) = (fst (m w), set_state x (snd (m w)))"
  shows "ignores_state m"
  using assms by (simp add: ignores_state_def)

lemma ignores_ret: "ignores_state (ret x)"
  by (simp add: ignores_state_def ret_def)

lemma ignores_throw: "ignores_state (throw e)"
  by (simp add: ignores_state_def throw_def)

lemma ignores_lift: "ignores_state (lift r)"
  by (simp add: ignores_state_def lift_def)

lemma ignores_bnd:
  assumes "ignores_state m" and "\<And>a. ignores_state (k a)"
  shows "ignores_state (bnd m k)"
proof (rule ignores_stateI)
  fix w :: world and x
  assume q: "script w = []"
  obtain r wa where m: "m w = (r, wa)" by fastforce
  from assms(1) q m have qa: "script wa = []" and mx: "m (set_state x w) = (r, set_state x wa)"
    by (auto simp: ignores_state_def)
  show "script (snd (bnd m k w)) = []"
  proof (cases r)
    case (Inl e)
    with m qa show ?thesis by (simp add: bnd_def)
  next
    case (Inr a)
    with m qa assms(2) [of a] show ?thesis by (simp add: bnd_def ignores_state_def)
  qed
  show "bnd m k (set_state x w) = (fst (bnd m k w), set_state x (snd (bnd m k w)))"
  proof (cases r)
    case (Inl e)
    with m mx show ?thesis by (simp add: bnd_def)
  next
    case (Inr a)
    with m mx qa assms(2) [of a] show ?thesis by (simp add: bnd_def ignores_state_def)
  qed
qed

lemma ignores_catch:
  assumes "ignores_state m" and "\<And>e. ignores_state (h e)"
  shows "ignores_state (catch m h)"
proof (rule ignores_stateI)
  fix w :: world and x
  assume q: "script w = []"
  obtain r wa where m: "m w = (r, wa)" by fastforce
  from assms(1) q m have qa: "script wa = []" and mx: "m (set_state x w) = (r, set_state x wa)"
    by (auto simp: ignores_state_def)
  show "script (snd (catch m h w)) = []"
  proof (cases r)
    case (Inl e)
    with m qa assms(2) [of e] show ?thesis by (simp add: catch_def ignores_state_def)
  next
    case (Inr a)
    with m qa show ?thesis by (simp add: catch_def)
  qed
  show "catch m h (set_state x w) = (fst (catch m h w), set_state x (snd (catch m h w)))"
  proof (cases r)
    case (Inl e)
    with m mx qa assms(2) [of e] show ?thesis by (simp add: catch_def ignores_state_def)
  next
    case (Inr a)
    with m mx show ?thesis by (simp add: catch_def)
  qed
qed

lemma ignores_respond: "ignores_state (respond status b)"
  by (simp add: ignores_state_def respond_def emit_def set_state_def)

lemma ignores_gh_get: "p \<noteq> STATE_PATH \<Longrightarrow> ignores_state (gh_get p)"
  by (rule ignores_stateI)
     (simp_all add: gh_get_quiet emit_def set_state_def split: option.splits)

lemma ignores_gh_put: "p \<noteq> STATE_PATH \<Longrightarrow> ignores_state (gh_put p v sha msg)"
  by (rule ignores_stateI)
     (auto simp: gh_put_quiet emit_def set_state_def fun_upd_twist)

lemma ignores_ghGetOrInit: "p \<noteq> STATE_PATH \<Longrightarrow> ignores_state (ghGetOrInit p init)"
  unfolding ghGetOrInit_def ghPut_def
  by (intro ignores_catch ignores_bnd ignores_gh_get ignores_gh_put)
     (auto simp: ignores_ret ignores_throw ignores_lift intro!: ignores_bnd ignores_gh_put)

lemma ignores_ghRead: "p \<noteq> STATE_PATH \<Longrightarrow> ignores_state (ghRead p init)"
  unfolding ghRead_def
  by (intro ignores_bnd ignores_ghGetOrInit) (auto simp: ignores_ret)

lemma ignores_ghGetOrInit_origin:
  "p \<noteq> STATE_PATH \<Longrightarrow> ignores_state (ghGetOrInit_origin p init)"
  unfolding ghGetOrInit_origin_def ghPut_def
  by (intro ignores_catch ignores_bnd ignores_gh_get ignores_gh_put)
     (auto simp: ignores_ret ignores_throw ignores_lift intro!: ignores_bnd ignores_gh_put)

lemma ignores_ghUpdate:
  assumes "p \<noteq> STATE_PATH" and "\<And>d. ignores_state (mutator d)"
  shows "ignores_state (ghUpdate p mutator init msg)"
  unfolding ghUpdate_def ghPut_def Let_def
  using assms
  by (auto simp: ignores_ret ignores_throw
      intro!: ignores_bnd ignores_catch ignores_ghGetOrInit ignores_ghGetOrInit_origin
        ignores_gh_put)

lemma ignores_in_place: "ignores_state (f d) \<Longrightarrow> ignores_state (in_place f d)"
  unfolding in_place_def by (intro ignores_bnd) (simp_all add: ignores_ret)


lemma ignores_nanoid: "ignores_state (nanoid n)"
  by (simp add: ignores_state_def nanoid_def set_state_def)

lemma ignores_Date_now: "ignores_state Date_now"
  by (simp add: ignores_state_def Date_now_def set_state_def)

lemma ignores_assign_removed: "ignores_state (assign_removed n)"
  by (simp add: ignores_state_def assign_removed_def set_state_def)

lemma ignores_add_token: "ignores_state (add_token t)"
  by (simp add: ignores_state_def add_token_def set_state_def)

lemma ignores_getPageMeta: "ignores_state (getPageMeta url)"
  by (rule ignores_stateI)
     (simp_all add: getPageMeta_def emit_def set_state_def split: prod.splits)

lemma ignores_auth: "ignores_state handler \<Longrightarrow> ignores_state (auth req handler)"
  using ignores_respond [of 401 "failure ''unauthorized''"]
  by (simp add: ignores_state_def auth_def Let_def)

lemma ignores_read_removed: "ignores_state read_removed"
  by (simp add: ignores_state_def read_removed_def set_state_def)

lemma ignores_the_platform: "ignores_state the_platform"
  by (simp add: ignores_state_def the_platform_def set_state_def)

lemmas ignores_intros = ignores_bnd ignores_catch ignores_ret ignores_throw ignores_lift
  ignores_respond ignores_nanoid ignores_Date_now ignores_assign_removed ignores_add_token
  ignores_getPageMeta ignores_auth ignores_read_removed ignores_the_platform

lemma paths_distinct [simp]:
  "URLS_PATH \<noteq> STATE_PATH" "PINS_PATH \<noteq> STATE_PATH" "URLS_PATH \<noteq> PINS_PATH"
  "STATE_PATH \<noteq> URLS_PATH" "STATE_PATH \<noteq> PINS_PATH" "PINS_PATH \<noteq> URLS_PATH"
  by (simp_all add: path_defs)



lemma ignores_add_mutator: "ignores_state (add_mutator url title favicon db)"
  unfolding add_mutator_def Let_def
  by (intro ignores_intros)

lemma ignores_fill_tail:
  "ignores_state (bnd the_platform (\<lambda>pf.
         bnd (lift (or_hostname pf url a b)) (\<lambda>t.
         bnd (lift (set_prop x ''title'' t)) (\<lambda>u1.
         bnd (lift (set_prop u1 ''favicon'' (js_or (prop_of u1 ''favicon'') c))) (\<lambda>u2.
         ret (AList.update ''urls'' (JArr (xs[i := u2])) db))))))"
  by (intro ignores_intros)

lemma ignores_fill_mutator: "ignores_state (fill_mutator url last_rec m db)"
  unfolding fill_mutator_def
proof (intro ignores_bnd ignores_lift)
  fix xs idx
  show "ignores_state (case idx of None \<Rightarrow> ret db
      | Some i \<Rightarrow>
         bnd the_platform (\<lambda>pf.
         bnd (lift (or_hostname pf url (prop_of (xs ! i) ''title'') (meta_title m))) (\<lambda>t.
         bnd (lift (set_prop (xs ! i) ''title'' t)) (\<lambda>u1.
         bnd (lift (set_prop u1 ''favicon''
                (js_or (prop_of u1 ''favicon'')
                   (js_or (Some (JStr (meta_favicon m))) (JStr []))))) (\<lambda>u2.
         ret (AList.update ''urls'' (JArr (xs[i := u2])) db))))))"
    by (cases idx) (simp_all add: ignores_ret ignores_fill_tail)
qed

lemma ignores_remove_mutator: "ignores_state (remove_mutator rid db)"
  unfolding remove_mutator_def Let_def
  by (intro ignores_intros)


lemma ignores_checkPin: "ignores_state (checkPin pin)"
  unfolding checkPin_def
  by (intro ignores_bnd ignores_ghRead)
     (auto intro!: ignores_intros split: option.splits json.splits)

lemma ignores_login: "ignores_state (login req)"
proof (cases "body_field req ''pin''")
  case None
  then show ?thesis by (simp add: login_def ignores_respond)
next
  case (Some p)
  have "ignores_state (bnd (checkPin p) (\<lambda>good.
            if \<not> truthy_opt good then respond 401 (failure ''bad pin'')
            else
              bnd randomToken (\<lambda>token.
              bnd (add_token token) (\<lambda>_.
              respond 200 [(''ok'', JBool True), (''token'', JStr token)]))))"
    unfolding randomToken_def
    by (intro ignores_bnd ignores_checkPin) (simp add: ignores_intros)
  with Some show ?thesis by (simp add: login_def ignores_respond)
qed

lemma ignores_post_probe: "ignores_state (post_probe req)"
  unfolding post_probe_def
  by (auto intro!: ignores_intros split: option.splits)

lemma ignores_get_root: "ignores_state (get_root req)"
  unfolding get_root_def by (rule ignores_respond)

lemma ignores_delete_remove: "ignores_state (delete_remove req)"
  unfolding delete_remove_def
  by (intro ignores_intros ignores_ghUpdate ignores_in_place ignores_remove_mutator) simp

lemma ignores_backfill:
  "ignores_state (if c
                      then catch
                             (bnd (getPageMeta url) (\<lambda>m.
                              bnd (ghUpdate URLS_PATH (in_place (fill_mutator url last_rec m))
                                     init_urls ''fill title/favicon'') (\<lambda>_.
                              ret ())))
                             (\<lambda>e. ret ())
                      else ret ())"
  by (simp add: ignores_ret)
     (intro impI ignores_intros ignores_ghUpdate ignores_in_place ignores_fill_mutator, simp)

lemma ignores_post_add: "ignores_state (post_add req)"
proof (cases "body_field req ''url''")
  case None
  then show ?thesis by (simp add: post_add_def ignores_auth ignores_respond)
next
  case (Some url)
  show ?thesis
  proof (cases "truthy url")
    case False
    with Some show ?thesis by (simp add: post_add_def ignores_auth ignores_respond)
  next
    case True
    with Some show ?thesis
      unfolding post_add_def Let_def
      by (simp, intro ignores_intros ignores_ghUpdate ignores_in_place ignores_add_mutator
          ignores_backfill)
         simp
  qed
qed


section \<open>Computations that preserve the state document\<close>

lemma state_safeI:
  assumes "\<And>w. script w = [] \<Longrightarrow> script (snd (m w)) = []"
    and "\<And>w d. script w = [] \<Longrightarrow>
        stored (snd (m w)) STATE_PATH init_state d \<longleftrightarrow> stored w STATE_PATH init_state d"
  shows "state_safe m"
  using assms by (simp add: state_safe_def)

lemma ignores_state_safe:
  assumes "ignores_state m"
  shows "state_safe m"
proof (rule state_safeI)
  fix w :: world and d
  assume q: "script w = []"
  with assms show "script (snd (m w)) = []" by (simp add: ignores_state_def)
  from assms q have "m (set_state (files w STATE_PATH) w) =
      (fst (m w), set_state (files w STATE_PATH) (snd (m w)))"
    by (simp add: ignores_state_def)
  then have "snd (m w) = set_state (files w STATE_PATH) (snd (m w))"
    unfolding set_state_same by (metis snd_conv)
  then have "files (snd (m w)) STATE_PATH = files w STATE_PATH"
    by (metis set_state_simps(10))
  then show "stored (snd (m w)) STATE_PATH init_state d \<longleftrightarrow> stored w STATE_PATH init_state d"
    by (simp add: stored_def)
qed

lemma state_safe_bnd:
  assumes "state_safe m" and "\<And>a. state_safe (k a)"
  shows "state_safe (bnd m k)"
proof (rule state_safeI)
  fix w :: world and d
  assume q: "script w = []"
  obtain r wa where m: "m w = (r, wa)" by fastforce
  from assms(1) q m have qa: "script wa = []"
    and sa: "\<And>d. stored wa STATE_PATH init_state d \<longleftrightarrow> stored w STATE_PATH init_state d"
    by (auto simp: state_safe_def)
  show "script (snd (bnd m k w)) = []"
    using m qa assms(2) by (cases r) (auto simp: bnd_def state_safe_def)
  show "stored (snd (bnd m k w)) STATE_PATH init_state d \<longleftrightarrow> stored w STATE_PATH init_state d"
    using m qa sa assms(2) by (cases r) (auto simp: bnd_def state_safe_def)
qed

lemma state_safe_catch:
  assumes "state_safe m" and "\<And>e. state_safe (h e)"
  shows "state_safe (catch m h)"
proof (rule state_safeI)
  fix w :: world and d
  assume q: "script w = []"
  obtain r wa where m: "m w = (r, wa)" by fastforce
  from assms(1) q m have qa: "script wa = []"
    and sa: "\<And>d. stored wa STATE_PATH init_state d \<longleftrightarrow> stored w STATE_PATH init_state d"
    by (auto simp: state_safe_def)
  show "script (snd (catch m h w)) = []"
    using m qa assms(2) by (cases r) (auto simp: catch_def state_safe_def)
  show "stored (snd (catch m h w)) STATE_PATH init_state d \<longleftrightarrow> stored w STATE_PATH init_state d"
    using m qa sa assms(2) by (cases r) (auto simp: catch_def state_safe_def)
qed

lemma state_safe_ghRead_state: "state_safe (ghRead STATE_PATH init_state)"
proof (rule state_safeI)
  fix w :: world and d
  assume q: "script w = []"
  show "script (snd (ghRead STATE_PATH init_state w)) = []"
    using q
    by (cases "files w STATE_PATH")
       (auto simp: gh_defs gh_get_quiet gh_put_quiet io_defs emit_def split: blob.splits)
  show "stored (snd (ghRead STATE_PATH init_state w)) STATE_PATH init_state d
      \<longleftrightarrow> stored w STATE_PATH init_state d"
    using q
    by (cases "files w STATE_PATH")
       (auto simp: gh_defs gh_get_quiet gh_put_quiet io_defs emit_def stored_def
          split: blob.splits)
qed

lemmas state_safe_simple =
  ignores_ret [THEN ignores_state_safe] ignores_throw [THEN ignores_state_safe]
  ignores_lift [THEN ignores_state_safe] ignores_respond [THEN ignores_state_safe]

lemma state_safe_get_urls: "state_safe (get_urls req)"
  unfolding get_urls_def
  by (intro state_safe_catch state_safe_bnd state_safe_ghRead_state state_safe_simple
      ignores_state_safe [OF ignores_ghRead]) simp

lemma state_safe_found:
  "state_safe (if c then respond 404 (failure ''Not found'')
          else
            bnd (lift (get_prop_opt item ''id'')) (\<lambda>item_id.
            bnd (lift (get_prop_opt item ''title'')) (\<lambda>item_title.
            bnd (lift (get_prop_opt item ''favicon'')) (\<lambda>item_favicon.
            bnd (lift (get_prop_opt item ''url'')) (\<lambda>item_url.
            respond 200 (literal [(''ok'', Some (JBool True)), (''id'', item_id),
                                  (''title'', item_title), (''favicon'', item_favicon),
                                  (''url'', item_url)]))))))"
  by (simp add: state_safe_simple) (intro impI state_safe_bnd state_safe_simple)

lemma state_safe_gated:
  "state_safe (if c then respond 403 (failure ''Access disabled'')
        else
          bnd (ghRead URLS_PATH init_urls) (\<lambda>urls.
          bnd (lift (as_array (map_of urls ''urls''))) (\<lambda>all_urls.
          bnd (lift (find_js (matches rid) all_urls)) (\<lambda>item.
          if \<not> truthy_opt item
          then respond 404 (failure ''Not found'')
          else
            bnd (lift (get_prop_opt item ''id'')) (\<lambda>item_id.
            bnd (lift (get_prop_opt item ''title'')) (\<lambda>item_title.
            bnd (lift (get_prop_opt item ''favicon'')) (\<lambda>item_favicon.
            bnd (lift (get_prop_opt item ''url'')) (\<lambda>item_url.
            respond 200 (literal [(''ok'', Some (JBool True)), (''id'', item_id),
                                  (''title'', item_title), (''favicon'', item_favicon),
                                  (''url'', item_url)])))))))))"
  by (simp add: state_safe_simple)
     (intro impI state_safe_bnd state_safe_simple state_safe_found
        ignores_state_safe [OF ignores_ghRead], simp)

lemma state_safe_resolve: "state_safe (resolve req)"
  unfolding resolve_def
  by (intro state_safe_catch state_safe_bnd state_safe_ghRead_state state_safe_simple
      state_safe_gated)



section \<open>Properties of the service switch\<close>

lemma filter_js_active:
  "JNull \<notin> set xs \<Longrightarrow>
     filter_js is_active xs = Inr (filter (\<lambda>u. prop_of u ''active'' \<noteq> Some (JBool False)) xs)"
  by (induction xs) (auto simp: is_active_def get_prop_def)

lemma map_js_project: "JNull \<notin> set xs \<Longrightarrow> map_js project xs = Inr (map entry_view xs)"
  by (induction xs) (auto simp: project_def entry_view_def)

lemma authorized_auth: "authorized req w \<Longrightarrow> auth req handler w = handler w"
  by (simp add: authorized_def auth_def Let_def)

lemma only_at_other: "only_at p w w' \<Longrightarrow> q \<noteq> p \<Longrightarrow> files w' q = files w q"
  by (simp add: only_at_def)

lemma stored_cong: "files w' p = files w p \<Longrightarrow> stored w' p init d = stored w p init d"
  by (simp add: stored_def)

lemma post_toggle_quiet:
  assumes a: "authorized req w" and b: "body_field req ''enabled'' = Some (JBool b)"
    and q: "script w = []" and st: "stored w STATE_PATH init_state d"
  shows "\<exists>s w'. post_toggle req w =
           (Inr (200, [(''ok'', JBool True), (''enabled'', JBool b)]), w')
         \<and> files w' STATE_PATH = Some (Doc [(''enabled'', JBool b)], s)
         \<and> only_at STATE_PATH w w'"
proof -
  let ?u = "[(''enabled'', JBool b)]"
  have "\<exists>wa s w'. same_locals w wa \<and>
      ghUpdate STATE_PATH (\<lambda>db. ret (db, ?u)) init_state ''toggle service state'' w = (Inr ?u, w')
      \<and> files w' STATE_PATH = Some (Doc ?u, s) \<and> only_at STATE_PATH w w'
      \<and> same_locals ((\<lambda>v. v) wa) w'"
    by (rule ghUpdate_quiet [where d' = d, OF q st]) (simp add: ret_def)
  then obtain s w' where
    up: "ghUpdate STATE_PATH (\<lambda>db. ret (db, ?u)) init_state ''toggle service state'' w = (Inr ?u, w')"
    and f: "files w' STATE_PATH = Some (Doc ?u, s)" and o: "only_at STATE_PATH w w'"
    by blast
  let ?r = "[(''ok'', JBool True), (''enabled'', JBool b)]"
  have "post_toggle req w = (Inr (200, ?r), emit (Respond 200 ?r) w')"
    using a b up by (simp add: post_toggle_def authorized_auth io_defs respond_def)
  moreover have "files (emit (Respond 200 ?r) w') STATE_PATH = Some (Doc ?u, s)"
    using f by (simp add: emit_def)
  moreover have "only_at STATE_PATH w (emit (Respond 200 ?r) w')"
    using o by (simp add: only_at_def emit_def)
  ultimately show ?thesis by blast
qed

lemma get_urls_quiet:
  assumes q: "script w = []" and c: "stored w URLS_PATH init_urls cat"
    and xs: "map_of cat ''urls'' = Some (JArr xs)" "JNull \<notin> set xs"
    and st: "stored w STATE_PATH init_state state"
  shows "fst (get_urls req w) =
     Inr (200, [(''ok'', JBool True),
                (''enabled'', JBool (truthy_opt (map_of state ''enabled''))),
                (''urls'', JArr (map entry_view
                   (if query_all req = Some (JStr ''1'') then xs
                    else filter (\<lambda>u. prop_of u ''active'' \<noteq> Some (JBool False)) xs)))])"
proof -
  from ghRead_quiet [OF q c] obtain wa where
    r1: "ghRead URLS_PATH init_urls w = (Inr cat, wa)" and o: "only_at URLS_PATH w wa" by blast
  have qa: "script wa = []" using o by (simp add: only_at_def)
  have "files wa STATE_PATH = files w STATE_PATH" using only_at_other [OF o] by simp
  then have "stored wa STATE_PATH init_state state" using st by (simp add: stored_def)
  from ghRead_quiet [OF qa this] obtain wb where
    r2: "ghRead STATE_PATH init_state wa = (Inr state, wb)" by blast
  have nn: "JNull \<notin> set (filter (\<lambda>u. prop_of u ''active'' \<noteq> Some (JBool False)) xs)"
    using xs(2) by simp
  show ?thesis
    using r1 r2 xs
    by (simp add: get_urls_def io_defs respond_def filter_js_active map_js_project [OF nn]
        map_js_project [OF xs(2)])
qed


text \<open>
  C9. In an undisturbed world an authorized \<^verbatim>\<open>POST /api/admin/toggle\<close> with a boolean
  \<open>b\<close> answers 200 and leaves the state file holding exactly the object with the one
  property \<^verbatim>\<open>enabled\<close> set to \<open>b\<close>, whatever object \<open>d\<close> it read before, and leaves
  the files of the catalog and of the pins as they were. The list answers 200 with the
  entries whatever the state document says, which only sets its \<^verbatim>\<open>enabled\<close> flag. The
  list and the resolve handler leave the state document reading as before; login, add,
  remove, probe and the root handler neither read nor write it.
\<close>

theorem toggle_overwrites_state:
  "(authorized req w \<longrightarrow> body_field req ''enabled'' = Some (JBool b) \<longrightarrow> script w = [] \<longrightarrow>
      stored w STATE_PATH init_state d \<longrightarrow>
      fst (post_toggle req w) = Inr (200, [(''ok'', JBool True), (''enabled'', JBool b)])
      \<and> map_option fst (files (snd (post_toggle req w)) STATE_PATH) =
          Some (Doc [(''enabled'', JBool b)])
      \<and> files (snd (post_toggle req w)) URLS_PATH = files w URLS_PATH
      \<and> files (snd (post_toggle req w)) PINS_PATH = files w PINS_PATH)
   \<and> (script w = [] \<longrightarrow> stored w URLS_PATH init_urls cat \<longrightarrow>
      map_of cat ''urls'' = Some (JArr xs) \<longrightarrow> JNull \<notin> set xs \<longrightarrow>
      stored w STATE_PATH init_state state \<longrightarrow>
      fst (get_urls req w) =
        Inr (200, [(''ok'', JBool True),
                   (''enabled'', JBool (truthy_opt (map_of state ''enabled''))),
                   (''urls'', JArr (map entry_view
                      (if query_all req = Some (JStr ''1'') then xs
                       else filter (\<lambda>u. prop_of u ''active'' \<noteq> Some (JBool False)) xs)))]))
   \<and> state_safe (get_urls req) \<and> state_safe (resolve req)
   \<and> ignores_state (login req) \<and> ignores_state (post_add req)
   \<and> ignores_state (delete_remove req) \<and> ignores_state (post_probe req)
   \<and> ignores_state (get_root req)"
proof (intro conjI impI)
  assume a: "authorized req w" "body_field req ''enabled'' = Some (JBool b)" "script w = []"
    "stored w STATE_PATH init_state d"
  from post_toggle_quiet [OF a] obtain s w' where
    r: "post_toggle req w = (Inr (200, [(''ok'', JBool True), (''enabled'', JBool b)]), w')"
    and f: "files w' STATE_PATH = Some (Doc [(''enabled'', JBool b)], s)"
    and o: "only_at STATE_PATH w w'" by blast
  show "fst (post_toggle req w) = Inr (200, [(''ok'', JBool True), (''enabled'', JBool b)])"
    by (simp add: r)
  show "map_option fst (files (snd (post_toggle req w)) STATE_PATH) =
      Some (Doc [(''enabled'', JBool b)])"
    by (simp add: r f)
  show "files (snd (post_toggle req w)) URLS_PATH = files w URLS_PATH"
    using only_at_other [OF o, of URLS_PATH] by (simp add: r)
  show "files (snd (post_toggle req w)) PINS_PATH = files w PINS_PATH"
    using only_at_other [OF o, of PINS_PATH] by (simp add: r)
next
  assume "script w = []" "stored w URLS_PATH init_urls cat"
    "map_of cat ''urls'' = Some (JArr xs)" "JNull \<notin> set xs"
    "stored w STATE_PATH init_state state"
  then show "fst (get_urls req w) =
        Inr (200, [(''ok'', JBool True),
                   (''enabled'', JBool (truthy_opt (map_of state ''enabled''))),
                   (''urls'', JArr (map entry_view
                      (if query_all req = Some (JStr ''1'') then xs
                       else filter (\<lambda>u. prop_of u ''active'' \<noteq> Some (JBool False)) xs)))])"
    by (rule get_urls_quiet)
qed (rule state_safe_get_urls state_safe_resolve ignores_login ignores_post_add
      ignores_delete_remove ignores_post_probe ignores_get_root)+

theorem toggle_overwrites_state_witness:
  "fst (post_toggle (toggle_request False) (demo_world (gate_files True) [])) =
     Inr (200, [(''ok'', JBool True), (''enabled'', JBool False)])
   \<and> map_option fst (files (snd (post_toggle (toggle_request False)
         (demo_world (gate_files True) []))) STATE_PATH) = Some (Doc [(''enabled'', JBool False)])
   \<and> files (snd (post_toggle (toggle_request False) (demo_world (gate_files True) []))) URLS_PATH =
       gate_files True URLS_PATH
   \<and> fst (get_urls demo_request (demo_world (gate_files False) [])) =
       Inr (200, [(''ok'', JBool True), (''enabled'', JBool False),
                  (''urls'', JArr [JObj [(''id'', JStr ''b2''), (''title'', JStr ''B''),
                     (''favicon'', JStr ''https://b.example/favicon.ico''),
                     (''url'', JStr ''https://b.example/'')]])])
   \<and> stored (snd (resolve demo_request (demo_world (gate_files False) []))) STATE_PATH init_state
       [(''enabled'', JBool False)]
   \<and> fst (delete_remove demo_request (set_state None (demo_world (gate_files True) []))) =
       fst (delete_remove demo_request (demo_world (gate_files True) []))"
proof -
  let ?on = "demo_world (gate_files True) []"
  let ?off = "demo_world (gate_files False) []"
  let ?xs = "[JObj [(''id'', JStr ''a1''), (''url'', JStr ''https://a.example/''), (''title'', JStr ''A''),
                  (''favicon'', JStr ''https://a.example/favicon.ico''), (''active'', JBool False),
                  (''createdAt'', JNum 1)],
            JObj [(''id'', JStr ''b2''), (''url'', JStr ''https://b.example/''), (''title'', JStr ''B''),
                  (''favicon'', JStr ''https://b.example/favicon.ico''), (''active'', JBool True),
                  (''createdAt'', JNum 2)]]"
  have au: "authorized (toggle_request False) ?on"
    by (simp add: toggle_request_def authorized_def demo_request_def demo_world_def or_str_def)
  have st_on: "stored ?on STATE_PATH init_state [(''enabled'', JBool True)]"
    by (simp add: stored_def demo_world_def gate_defs parse_def path_defs)
  have st_off: "stored ?off STATE_PATH init_state [(''enabled'', JBool False)]"
    by (simp add: stored_def demo_world_def gate_defs parse_def path_defs)
  have cat_off: "stored ?off URLS_PATH init_urls [(''urls'', JArr ?xs)]"
    by (simp add: stored_def demo_world_def gate_defs parse_def path_defs)
  have t: "fst (post_toggle (toggle_request False) ?on) =
        Inr (200, [(''ok'', JBool True), (''enabled'', JBool False)])
      \<and> map_option fst (files (snd (post_toggle (toggle_request False) ?on)) STATE_PATH) =
          Some (Doc [(''enabled'', JBool False)])
      \<and> files (snd (post_toggle (toggle_request False) ?on)) URLS_PATH = files ?on URLS_PATH"
    using toggle_overwrites_state [where req = "toggle_request False" and w = ?on and b = False
        and d = "[(''enabled'', JBool True)]"] au st_on
    by (simp add: toggle_request_def body_field_def js_or_def demo_request_def demo_world_def)
  have l: "fst (get_urls demo_request ?off) =
       Inr (200, [(''ok'', JBool True), (''enabled'', JBool False),
                  (''urls'', JArr [JObj [(''id'', JStr ''b2''), (''title'', JStr ''B''),
                     (''favicon'', JStr ''https://b.example/favicon.ico''),
                     (''url'', JStr ''https://b.example/'')]])])"
    using toggle_overwrites_state [where req = demo_request and w = ?off
        and cat = "[(''urls'', JArr ?xs)]" and xs = ?xs and state = "[(''enabled'', JBool False)]"]
      st_off cat_off
    by (simp add: demo_request_def demo_world_def entry_view_def)
  have "state_safe (resolve demo_request)"
    using toggle_overwrites_state [where req = demo_request] by blast
  then have r: "stored (snd (resolve demo_request ?off)) STATE_PATH init_state
      [(''enabled'', JBool False)]"
    using st_off by (simp add: state_safe_def demo_world_def)
  have "ignores_state (delete_remove demo_request)"
    using toggle_overwrites_state [where req = demo_request] by blast
  then have d: "fst (delete_remove demo_request (set_state None ?on)) =
      fst (delete_remove demo_request ?on)"
    by (simp add: ignores_state_def demo_world_def)
  from t l r d show ?thesis by (simp add: demo_world_def)
qed

section \<open>Adding and removing in an undisturbed world\<close>


















section \<open>Properties of add, resolve and remove\<close>
















section \<open>Properties of the metadata backfill\<close>






























end
